theory Spec2Isabelle
  imports Main "HOL-Library.Char_ord" "HOL-Library.List_Lexorder" "HOL-Library.Sublist"
begin

section \<open>Strings\<close>

text \<open>
  A Go string is modelled as a \<^typ>\<open>string\<close>, one \<^typ>\<open>char\<close> per rune.  The
  template text and the identifiers of a schema are ASCII, where a rune is one byte; the
  Unicode tables of Go's library are not part of the model, so the case functions below
  change the ASCII letters and leave every other character as it is.
\<close>

definition newline :: string where
  "newline = [CHR 0x0A]"

definition squote :: string where
  "squote = [CHR 0x27]"

text \<open>The lines of a piece of template text, with a line feed between two lines.\<close>

fun joinlines :: "string list \<Rightarrow> string" where
  "joinlines [] = []"
| "joinlines [l] = l"
| "joinlines (l # m # ls) = l @ newline @ joinlines (m # ls)"

section \<open>The functions of Go's library that the generator calls\<close>

definition ascii_lower :: string where
  "ascii_lower = ''abcdefghijklmnopqrstuvwxyz''"

definition ascii_upper :: string where
  "ascii_upper = ''ABCDEFGHIJKLMNOPQRSTUVWXYZ''"

definition ascii_digit :: string where
  "ascii_digit = ''0123456789''"

text \<open>\<^verbatim>\<open>unicode.ToUpper\<close>, \<^verbatim>\<open>unicode.ToLower\<close> and \<^verbatim>\<open>unicode.ToTitle\<close> on an ASCII rune.\<close>

definition unicode_ToUpper :: "char \<Rightarrow> char" where
  "unicode_ToUpper r = (case map_of (zip ascii_lower ascii_upper) r of Some u \<Rightarrow> u | None \<Rightarrow> r)"

definition unicode_ToLower :: "char \<Rightarrow> char" where
  "unicode_ToLower r = (case map_of (zip ascii_upper ascii_lower) r of Some l \<Rightarrow> l | None \<Rightarrow> r)"

definition unicode_ToTitle :: "char \<Rightarrow> char" where
  "unicode_ToTitle r = unicode_ToUpper r"

text \<open>\<^verbatim>\<open>strings.ToUpper\<close> and \<^verbatim>\<open>strings.ToLower\<close> map every rune of the string.\<close>

definition strings_ToUpper :: "string \<Rightarrow> string" where
  "strings_ToUpper s = map unicode_ToUpper s"

definition strings_ToLower :: "string \<Rightarrow> string" where
  "strings_ToLower s = map unicode_ToLower s"

text \<open>
  \<^verbatim>\<open>strings.Title\<close> maps to title case every letter that begins a word.  Its helper
  \<^verbatim>\<open>isSeparator\<close> says where a word ends: the ASCII letters, the digits and the
  underscore are no separators, every other ASCII rune is one.  Beyond ASCII Go asks the
  Unicode tables (a letter or a digit is no separator, a space is one); the model reads
  such a character as a letter.  \<^verbatim>\<open>Title\<close> keeps the previous rune in
  \<^verbatim>\<open>prev\<close>, which starts as a space.
\<close>

definition isSeparator :: "char \<Rightarrow> bool" where
  "isSeparator r =
     (if of_char r \<le> (0x7F :: nat) then
        (if r \<in> set ascii_digit then False
         else if r \<in> set ascii_lower then False
         else if r \<in> set ascii_upper then False
         else if r = CHR ''_'' then False
         else True)
      else False)"

fun Title_map :: "char \<Rightarrow> string \<Rightarrow> string" where
  "Title_map prev [] = []"
| "Title_map prev (r # rs) =
     (if isSeparator prev then unicode_ToTitle r # Title_map r rs
      else r # Title_map r rs)"

definition strings_Title :: "string \<Rightarrow> string" where
  "strings_Title s = Title_map (CHR '' '') s"

text \<open>\<^verbatim>\<open>strings.TrimPrefix\<close> drops the prefix when the string starts with it.\<close>

definition strings_TrimPrefix :: "string \<Rightarrow> string \<Rightarrow> string" where
  "strings_TrimPrefix s pre = (if prefix pre s then drop (length pre) s else s)"

section \<open>The naming functions (main.go, lines 206 to 232)\<close>

text \<open>
  \<^verbatim>\<open>snakeCaseToCamelCase\<close> walks the input with its index \<open>k\<close>, the flag
  \<^verbatim>\<open>isToUpper\<close> and the result \<^verbatim>\<open>camelCase\<close> built so far.  At index 0 the result is
  set to the lower-cased first character of the input; the flag is left alone there.
\<close>

fun snakeCaseToCamelCase_loop :: "string \<Rightarrow> nat \<Rightarrow> bool \<Rightarrow> string \<Rightarrow> string \<Rightarrow> string" where
  "snakeCaseToCamelCase_loop input k isToUpper camelCase [] = camelCase"
| "snakeCaseToCamelCase_loop input k isToUpper camelCase (v # vs) =
     (if k = 0 then
        snakeCaseToCamelCase_loop input (Suc k) isToUpper (strings_ToLower [hd input]) vs
      else if isToUpper then
        snakeCaseToCamelCase_loop input (Suc k) False (camelCase @ strings_ToUpper [v]) vs
      else if v = CHR ''_'' then
        snakeCaseToCamelCase_loop input (Suc k) True camelCase vs
      else
        snakeCaseToCamelCase_loop input (Suc k) False (camelCase @ [v]) vs)"

definition snakeCaseToCamelCase :: "string \<Rightarrow> string" where
  "snakeCaseToCamelCase input = snakeCaseToCamelCase_loop input 0 False [] input"

definition convertRefToClassName :: "string \<Rightarrow> string" where
  "convertRefToClassName input =
     (let cleanRef = strings_TrimPrefix input ''#/definitions/''
      in strings_Title cleanRef)"

section \<open>The schema (main.go, lines 260 to 301)\<close>

text \<open>
  The anonymous struct that \<^verbatim>\<open>json.Unmarshal\<close> fills.  A nested struct is a record of
  its own; a field the document leaves out holds Go's zero value (the empty string,
  \<open>False\<close>, the empty map or slice).  A Go map is an association list with distinct
  keys, in whatever order a run happens to hold the entries: Go fixes no iteration order
  for a map.  A slice keeps its order.  The chain \<^verbatim>\<open>Responses.Ok.Schema\<close> of an
  operation is the one field \<open>Responses_Ok_Schema\<close>.  The struct of a parameter has the
  fields below and no other; in particular it has no \<^verbatim>\<open>AdditionalProperties\<close>.
\<close>

record response_schema =
  rs_Ref :: string

record parameter_items =
  pi_Type :: string

record parameter_schema =
  ps_Type :: string
  ps_Ref :: string

record parameter =
  p_Name :: string
  p_In :: string
  p_Required :: bool
  p_Type :: string
  p_Items :: parameter_items
  p_Schema :: parameter_schema

record operation =
  Summary :: string
  OperationId :: string
  Responses_Ok_Schema :: response_schema
  Parameters :: "parameter list"

record property_items =
  it_Type :: string
  it_Ref :: string

record additional_properties =
  ap_Type :: string

record property =
  Type :: string
  Ref :: string
  Items :: property_items
  AdditionalProperties :: additional_properties
  Format :: string
  Description :: string

record definition_t =
  Properties :: "(string \<times> property) list"
  d_Description :: string

record schema =
  Paths :: "(string \<times> (string \<times> operation) list) list"
  Definitions :: "(string \<times> definition_t) list"

section \<open>Executing the template (main.go, lines 28 to 204)\<close>

text \<open>
  \<^verbatim>\<open>Execute\<close> writes the output piece by piece and stops at the first action that
  fails, so an execution is the text written so far and the error that stopped it, if
  any.  Two actions of the template can fail:
  \<^item> line 70 pipes \<^verbatim>\<open>$property.AdditionalProperties\<close>, a struct, into
    \<^verbatim>\<open>cleanRef\<close>, a function of a string: the call is refused with
    "wrong type for value; expected string";
  \<^item> line 155 reads \<^verbatim>\<open>$parameter.AdditionalProperties.Type\<close>, and the struct of a
    parameter (lines 271 to 283) has no field of that name: "can't evaluate field
    AdditionalProperties".
  Every other action reads a field that exists and calls a function on a string.
\<close>

datatype exec_error =
  WrongTypeForValue
| CantEvaluateField

type_synonym exec = "string \<times> exec_error option"

definition emit :: "string \<Rightarrow> exec" where
  "emit s = (s, None)"

definition abort :: "exec_error \<Rightarrow> exec" where
  "abort e = ([], Some e)"

text \<open>The pieces of a template run one after the other; nothing runs after a failure.\<close>

fun seq :: "exec list \<Rightarrow> exec" where
  "seq [] = ([], None)"
| "seq ((t, Some e) # rest) = (t, Some e)"
| "seq ((t, None) # rest) = (case seq rest of (t', r) \<Rightarrow> (t @ t', r))"

text \<open>
  \<^verbatim>\<open>range\<close> over a slice visits the elements in order; \<^verbatim>\<open>range\<close> over a map with
  string keys visits the entries in sorted key order (the order of Go's strings, byte by
  byte).
\<close>

definition range_slice :: "('a \<Rightarrow> exec) \<Rightarrow> 'a list \<Rightarrow> exec" where
  "range_slice body xs = seq (map body xs)"

definition range_map :: "(string \<Rightarrow> 'v \<Rightarrow> exec) \<Rightarrow> (string \<times> 'v) list \<Rightarrow> exec" where
  "range_map body m = seq (map (\<lambda>(k, v). body k v) (sort_key fst m))"

subsection \<open>The fixed text\<close>

definition codeTemplate_preamble :: string where
  \<open>codeTemplate_preamble = joinlines
    [''// tslint:disable'',
     ''/* Code generated by openapi-gen/main.go. DO NOT EDIT. */'',
     [],
     ''const BASE_PATH = "http://127.0.0.1:80";'',
     [],
     ''export interface ConfigurationParameters {'',
     ''  basePath?: string;'',
     ''  username?: string;'',
     ''  password?: string;'',
     ''  bearerToken?: string;'',
     ''  timeoutMs?: number;'',
     ''}'']\<close>

definition codeTemplate_api_head :: string where
  \<open>codeTemplate_api_head = joinlines
    [[],
     [],
     ''export const NakamaApi = (configuration: ConfigurationParameters = {'',
     ''  basePath: BASE_PATH,'',
     ''  bearerToken: "",'',
     ''  password: "",'',
     ''  username: "",'',
     ''  timeoutMs: 5000,'',
     ''}) => {'',
     ''  const napi = {'',
     ''    /** Perform the underlying Fetch operation and return Promise object **/'',
     ''    doFetch(urlPath: string, method: string, queryParams: any, body?: any, options?: any): Promise<any> {'',
     ''      const urlQuery = "?" + Object.keys(queryParams)'',
     ''        .map(k => {'',
     ''          if (queryParams[k] instanceof Array) {'',
     ''            return queryParams[k].reduce((prev: any, curr: any) => {'',
     ''              return prev + encodeURIComponent(k) + "=" + encodeURIComponent(curr) + "&";'',
     ''            }, "");'',
     ''          } else {'',
     ''            if (queryParams[k] != null) {'',
     ''              return encodeURIComponent(k) + "=" + encodeURIComponent(queryParams[k]) + "&";'',
     ''            }'',
     ''          }'',
     ''        })'',
     ''        .join("");'',
     [],
     ''      const fetchOptions = {...{ method: method /*, keepalive: true */ }, ...options};'',
     ''      fetchOptions.headers = {...options.headers};'',
     ''      if (configuration.bearerToken) {'',
     ''        fetchOptions.headers["Authorization"] = "Bearer " + configuration.bearerToken;'',
     ''      } else if (configuration.username) {'',
     ''        fetchOptions.headers["Authorization"] = "Basic " + btoa(configuration.username + ":" + configuration.password);'',
     ''      }'',
     ''      if(!Object.keys(fetchOptions.headers).includes("Accept")) {'',
     ''        fetchOptions.headers["Accept"] = "application/json";'',
     ''      }'',
     ''      if(!Object.keys(fetchOptions.headers).includes("Content-Type")) {'',
     ''        fetchOptions.headers["Content-Type"] = "application/json";'',
     ''      }'',
     ''      Object.keys(fetchOptions.headers).forEach((key: string) => {'',
     ''        if(!fetchOptions.headers[key]) {'',
     ''          delete fetchOptions.headers[key];'',
     ''        }'',
     ''      });'',
     ''      fetchOptions.body = body;'',
     [],
     ''      return Promise.race(['',
     ''        fetch(configuration.basePath + urlPath + urlQuery, fetchOptions).then((response) => {'',
     ''          if (response.status >= 200 && response.status < 300) {'',
     ''            return response.json();'',
     ''          } else {'',
     ''            throw response;'',
     ''          }'',
     ''        }),'',
     ''        new Promise((_, reject) =>'',
     ''          setTimeout(reject, configuration.timeoutMs, "Request timed out.")'',
     ''        ),'',
     ''      ]);'',
     ''    },'']\<close>

definition codeTemplate_api_tail :: string where
  \<open>codeTemplate_api_tail = joinlines
    [[],
     ''  };'',
     [],
     ''  return napi;'',
     ''};'',
     []]\<close>

subsection \<open>Definitions (lines 41 to 79)\<close>

text \<open>The field of one property: its description as a comment, then the typed field.\<close>

definition render_property :: "string \<Rightarrow> property \<Rightarrow> exec" where
  "render_property fieldname property = seq
     [emit (newline @ ''  // '' @ Description property),
      (if Type property = ''integer'' then
         emit (newline @ ''  '' @ fieldname @ ''?: number;'')
       else if Type property = ''number'' then
         emit (newline @ ''  '' @ fieldname @ ''?: number;'')
       else if Type property = ''boolean'' then
         emit (newline @ ''  '' @ fieldname @ ''?: boolean;'')
       else if Type property = ''array'' then
         (if it_Type (Items property) = ''string'' then
            emit (newline @ ''  '' @ fieldname @ ''?: Array<string>;'')
          else if it_Type (Items property) = ''integer'' then
            emit (newline @ ''  '' @ fieldname @ ''?: Array<number>;'')
          else if it_Type (Items property) = ''boolean'' then
            emit (newline @ ''  '' @ fieldname @ ''?: Array<boolean>;'')
          else
            emit (newline @ ''  '' @ fieldname @ ''?: Array<''
                  @ convertRefToClassName (it_Ref (Items property)) @ ''>;''))
       else if Type property = ''object'' then
         (if ap_Type (AdditionalProperties property) = ''string'' then
            emit (newline @ ''  '' @ fieldname @ ''?: Map<string, string>;'')
          else if ap_Type (AdditionalProperties property) = ''integer'' then
            emit (newline @ ''  '' @ fieldname @ ''?: Map<string, integer>;'')
          else if ap_Type (AdditionalProperties property) = ''boolean'' then
            emit (newline @ ''  '' @ fieldname @ ''?: Map<string, boolean>;'')
          else
            seq [emit (newline @ ''  '' @ fieldname @ ''?: Map<''),
                 abort WrongTypeForValue,
                 emit ''>;''])
       else if Type property = ''string'' then
         emit (newline @ ''  '' @ fieldname @ ''?: string;'')
       else
         emit (newline @ ''  '' @ fieldname @ ''?: ''
               @ convertRefToClassName (Ref property) @ '';''))]"

definition render_definition :: "string \<Rightarrow> definition_t \<Rightarrow> exec" where
  "render_definition classname definition = seq
     [emit (newline @ ''/** '' @ d_Description definition @ '' */'' @ newline
            @ ''export interface '' @ strings_Title classname @ '' {''),
      range_map render_property (Properties definition),
      emit (newline @ ''}'')]"

subsection \<open>Operations (lines 138 to 199)\<close>

text \<open>The question mark of an argument that is not required.\<close>

definition optional_mark :: "parameter \<Rightarrow> string" where
  "optional_mark p = (if \<not> p_Required p then ''?'' else [])"

text \<open>
  One argument of the call signature (lines 143 to 161): the camel-case name, the
  question mark, the type, a comma, and the blank that line 161 prints.
\<close>

definition render_argument :: "parameter \<Rightarrow> exec" where
  "render_argument p =
     (let camelcase = snakeCaseToCamelCase (p_Name p) in seq
        [(if p_In p = ''path'' then
            emit (camelcase @ optional_mark p @ '': '' @ p_Type p @ '','')
          else if p_In p = ''body'' then
            (if ps_Type (p_Schema p) = ''string'' then
               emit (camelcase @ optional_mark p @ '': '' @ ps_Type (p_Schema p) @ '','')
             else
               emit (camelcase @ optional_mark p @ '': ''
                     @ convertRefToClassName (ps_Ref (p_Schema p)) @ '',''))
          else if p_Type p = ''array'' then
            emit (camelcase @ optional_mark p @ '': Array<'' @ pi_Type (p_Items p) @ ''>,'')
          else if p_Type p = ''object'' then
            seq [emit (camelcase @ optional_mark p @ '': Map<''),
                 abort CantEvaluateField,
                 emit ''>,'']
          else if p_Type p = ''integer'' then
            emit (camelcase @ optional_mark p @ '': number,'')
          else
            emit (camelcase @ optional_mark p @ '': '' @ p_Type p @ '','')),
         emit '' ''])"

text \<open>The check of a required argument (lines 164 to 169).\<close>

definition required_check :: "string \<Rightarrow> string" where
  \<open>required_check camelcase =
     newline @ ''      if ('' @ camelcase @ '' === null || '' @ camelcase @ '' === undefined) {''
     @ newline @ ''        throw new Error("'' @ squote @ camelcase @ squote
     @ '' is a required parameter but is null or undefined.");''
     @ newline @ ''      }''\<close>

definition render_required :: "parameter \<Rightarrow> exec" where
  "render_required p =
     (let camelcase = snakeCaseToCamelCase (p_Name p) in
      if p_Required p then emit (required_check camelcase) else emit [])"

text \<open>The substitution of a path argument into the URL (lines 173 to 176).\<close>

definition render_path_replace :: "parameter \<Rightarrow> exec" where
  \<open>render_path_replace p =
     (let camelcase = snakeCaseToCamelCase (p_Name p) in
      if p_In p = ''path'' then
        emit (newline @ ''         .replace("'' @ ''{'' @ p_Name p @ ''}''
              @ ''", encodeURIComponent(String('' @ camelcase @ '')))'')
      else emit [])\<close>

text \<open>The entry of a query argument in the query mapping (lines 181 to 184).\<close>

definition render_query_entry :: "parameter \<Rightarrow> exec" where
  "render_query_entry p =
     (let camelcase = snakeCaseToCamelCase (p_Name p) in
      if p_In p = ''query'' then
        emit (newline @ ''        '' @ p_Name p @ '': '' @ camelcase @ '','')
      else emit [])"

text \<open>The serialization of a body argument (lines 190 to 193).\<close>

definition render_body :: "parameter \<Rightarrow> exec" where
  "render_body p =
     (let camelcase = snakeCaseToCamelCase (p_Name p) in
      if p_In p = ''body'' then
        emit (newline @ ''      _body = JSON.stringify('' @ camelcase @ '' || {});'')
      else emit [])"

text \<open>The result type of a method (line 162): the 200-response reference, or \<open>any\<close>.\<close>

definition return_type :: "operation \<Rightarrow> string" where
  "return_type operation =
     (if convertRefToClassName (rs_Ref (Responses_Ok_Schema operation)) \<noteq> []
      then convertRefToClassName (rs_Ref (Responses_Ok_Schema operation))
      else ''any'')"

text \<open>The call of the dispatcher that ends a method (lines 195 to 197).\<close>

definition dispatch_call :: "string \<Rightarrow> string" where
  \<open>dispatch_call method =
     newline @ newline @ ''      return napi.doFetch(urlPath, "'' @ strings_ToUpper method
     @ ''", queryParams, _body, options)'' @ newline @ ''    },''\<close>

definition render_operation :: "string \<Rightarrow> string \<Rightarrow> operation \<Rightarrow> exec" where
  \<open>render_operation url method operation = seq
     [emit (newline @ ''    /** '' @ Summary operation @ '' */'' @ newline @ ''    ''
            @ snakeCaseToCamelCase (OperationId operation) @ ''(''),
      range_slice render_argument (Parameters operation),
      emit (''options: any = {}): Promise<'' @ return_type operation @ ''> {''),
      range_slice render_required (Parameters operation),
      emit (newline @ ''      const urlPath = "'' @ url @ ''"''),
      range_slice render_path_replace (Parameters operation),
      emit ('';'' @ newline @ newline @ ''      const queryParams = {''),
      range_slice render_query_entry (Parameters operation),
      emit (newline @ ''      } as any;'' @ newline @ newline @ ''      let _body = null;''),
      range_slice render_body (Parameters operation),
      emit (dispatch_call method)]\<close>

definition render_path :: "string \<Rightarrow> (string \<times> operation) list \<Rightarrow> exec" where
  "render_path url path = range_map (render_operation url) path"

subsection \<open>The whole template, and what main writes\<close>

definition codeTemplate_Execute :: "schema \<Rightarrow> exec" where
  "codeTemplate_Execute s = seq
     [emit codeTemplate_preamble,
      range_map render_definition (Definitions s),
      emit codeTemplate_api_head,
      range_map render_path (Paths s),
      emit codeTemplate_api_tail]"

text \<open>
  Once the document is read and decoded and the template is parsed, \<^verbatim>\<open>main\<close> (lines
  314 to 328) executes the template on the standard output or on a buffered writer of the
  output file.  It drops the error that \<^verbatim>\<open>Execute\<close> returns and flushes the writer:
  what reaches the output is the text written until the execution stopped.  No path of
  \<^verbatim>\<open>main\<close> sets an exit status.
\<close>

definition main_output :: "schema \<Rightarrow> string" where
  "main_output s = fst (codeTemplate_Execute s)"

section \<open>Notions the properties are stated with\<close>

subsection \<open>Naming\<close>

text \<open>
  What \<^verbatim>\<open>snakeCaseToCamelCase\<close> does after index 0, as a function of the flag and of the
  input that is left.
\<close>

fun camel_tail :: "bool \<Rightarrow> string \<Rightarrow> string" where
  "camel_tail isToUpper [] = []"
| "camel_tail isToUpper (v # vs) =
     (if isToUpper then unicode_ToUpper v # camel_tail False vs
      else if v = CHR ''_'' then camel_tail True vs
      else v # camel_tail False vs)"

text \<open>A string of lower-case ASCII letters, digits and underscores.\<close>

definition is_snake_input :: "string \<Rightarrow> bool" where
  "is_snake_input s =
     list_all (\<lambda>c. c \<in> set ascii_lower \<or> c \<in> set ascii_digit \<or> c = CHR ''_'') s"

definition leading_underscore :: "string \<Rightarrow> bool" where
  "leading_underscore s = (case s of [] \<Rightarrow> False | c # cs \<Rightarrow> c = CHR ''_'')"

fun adjacent_underscores :: "string \<Rightarrow> bool" where
  "adjacent_underscores (a # b # cs) =
     ((a = CHR ''_'' \<and> b = CHR ''_'') \<or> adjacent_underscores (b # cs))"
| "adjacent_underscores cs = False"

text \<open>A string of letters, digits and underscores holds no word separator.\<close>

definition one_word :: "string \<Rightarrow> bool" where
  "one_word s = list_all (\<lambda>c. \<not> isSeparator c) s"

subsection \<open>References\<close>

text \<open>
  The Definition a reference string points to is the one whose key is the string without
  the definitions prefix.  The generator has no such lookup; the notion is here to say
  so.
\<close>

definition resolves :: "schema \<Rightarrow> string \<Rightarrow> bool" where
  "resolves s ref = (strings_TrimPrefix ref ''#/definitions/'' \<in> fst ` set (Definitions s))"

subsection \<open>Schemas on which no action of the template fails\<close>

definition property_renders :: "property \<Rightarrow> bool" where
  "property_renders p =
     (Type p \<noteq> ''object''
      \<or> ap_Type (AdditionalProperties p) = ''string''
      \<or> ap_Type (AdditionalProperties p) = ''integer''
      \<or> ap_Type (AdditionalProperties p) = ''boolean'')"

definition definition_renders :: "definition_t \<Rightarrow> bool" where
  "definition_renders d = list_all (\<lambda>(fieldname, p). property_renders p) (Properties d)"

definition argument_renders :: "parameter \<Rightarrow> bool" where
  "argument_renders p = (p_In p = ''path'' \<or> p_In p = ''body'' \<or> p_Type p \<noteq> ''object'')"

definition operation_renders :: "operation \<Rightarrow> bool" where
  "operation_renders operation = list_all argument_renders (Parameters operation)"

definition schema_renders :: "schema \<Rightarrow> bool" where
  "schema_renders s =
     (list_all (\<lambda>(classname, d). definition_renders d) (Definitions s)
      \<and> list_all (\<lambda>(url, path). list_all (\<lambda>(method, operation). operation_renders operation) path)
           (Paths s))"

subsection \<open>The text of a method\<close>

text \<open>The checks of the required parameters of a list, in the order of the list.\<close>

definition required_checks :: "parameter list \<Rightarrow> string" where
  "required_checks ps =
     concat (map (\<lambda>p. if p_Required p then required_check (snakeCaseToCamelCase (p_Name p)) else [])
               ps)"


subsection \<open>Two enumerations of one map\<close>

text \<open>
  Two association lists hold the same Go map when their keys are distinct, they have the
  same keys, and the values under a key are the same (up to \<open>R\<close>, for values that hold
  maps themselves).
\<close>

definition same_map :: "('v \<Rightarrow> 'v \<Rightarrow> bool) \<Rightarrow> (string \<times> 'v) list \<Rightarrow> (string \<times> 'v) list \<Rightarrow> bool" where
  "same_map R m1 m2 =
     (distinct (map fst m1) \<and> distinct (map fst m2)
      \<and> list_all (\<lambda>(k, v). case map_of m2 k of None \<Rightarrow> False | Some v' \<Rightarrow> R v v') m1
      \<and> list_all (\<lambda>(k, v'). map_of m1 k \<noteq> None) m2)"

definition same_definition :: "definition_t \<Rightarrow> definition_t \<Rightarrow> bool" where
  "same_definition d1 d2 =
     (d_Description d1 = d_Description d2 \<and> same_map (=) (Properties d1) (Properties d2))"

definition same_schema :: "schema \<Rightarrow> schema \<Rightarrow> bool" where
  "same_schema s1 s2 =
     (same_map same_definition (Definitions s1) (Definitions s2)
      \<and> same_map (same_map (=)) (Paths s1) (Paths s2))"

subsection \<open>Sample documents\<close>

definition no_property :: property where
  "no_property = \<lparr>Type = [], Ref = [], Items = \<lparr>it_Type = [], it_Ref = []\<rparr>,
     AdditionalProperties = \<lparr>ap_Type = []\<rparr>, Format = [], Description = []\<rparr>"

definition no_parameter :: parameter where
  "no_parameter = \<lparr>p_Name = [], p_In = [], p_Required = False, p_Type = [],
     p_Items = \<lparr>pi_Type = []\<rparr>, p_Schema = \<lparr>ps_Type = [], ps_Ref = []\<rparr>\<rparr>"

text \<open>
  An account with a field that refers to a Definition the document does not have, and an
  operation whose body and 200-response do the same.
\<close>

definition doc_account :: definition_t where
  "doc_account = \<lparr>Properties =
       [(''user_id'', no_property\<lparr>Type := ''string'', Description := ''The id.''\<rparr>),
        (''owner'', no_property\<lparr>Ref := ''#/definitions/missing''\<rparr>)],
     d_Description = ''An account.''\<rparr>"

definition doc_user_id :: parameter where
  "doc_user_id = no_parameter\<lparr>p_Name := ''user_id'', p_In := ''path'', p_Required := True,
     p_Type := ''string''\<rparr>"

definition doc_dry_run :: parameter where
  "doc_dry_run = no_parameter\<lparr>p_Name := ''dry_run'', p_In := ''query'', p_Type := ''boolean''\<rparr>"

definition doc_body :: parameter where
  "doc_body = no_parameter\<lparr>p_Name := ''body'', p_In := ''body'', p_Required := True,
     p_Schema := \<lparr>ps_Type = [], ps_Ref = ''#/definitions/absent''\<rparr>\<rparr>"

definition doc_update :: operation where
  "doc_update = \<lparr>Summary = ''Update the account.'', OperationId = ''update_account'',
     Responses_Ok_Schema = \<lparr>rs_Ref = ''#/definitions/gone''\<rparr>,
     Parameters = [doc_user_id, doc_dry_run, doc_body]\<rparr>"

definition doc_unresolved :: schema where
  "doc_unresolved = \<lparr>Paths = [(''/v2/account/{user_id}'', [(''put'', doc_update)])],
     Definitions = [(''account'', doc_account)]\<rparr>"

text \<open>An operation with a query parameter of type \<open>object\<close>.\<close>

definition doc_filter :: parameter where
  "doc_filter = no_parameter\<lparr>p_Name := ''filter'', p_In := ''query'', p_Type := ''object''\<rparr>"

definition doc_list_users :: operation where
  "doc_list_users = \<lparr>Summary = ''List users.'', OperationId = ''list_users'',
     Responses_Ok_Schema = \<lparr>rs_Ref = []\<rparr>, Parameters = [doc_filter]\<rparr>"

definition doc_object_parameter :: schema where
  "doc_object_parameter = \<lparr>Paths = [(''/v2/user'', [(''get'', doc_list_users)])],
     Definitions = []\<rparr>"

text \<open>An operation with a required path parameter and, behind it, that query parameter.\<close>

definition doc_get_filtered :: operation where
  "doc_get_filtered = \<lparr>Summary = ''Get a user.'', OperationId = ''get_user'',
     Responses_Ok_Schema = \<lparr>rs_Ref = []\<rparr>, Parameters = [doc_user_id, doc_filter]\<rparr>"

definition doc_required_then_object :: schema where
  "doc_required_then_object = \<lparr>Paths = [(''/v2/user/{user_id}'', [(''get'', doc_get_filtered)])],
     Definitions = []\<rparr>"

text \<open>A definition with a property of type \<open>object\<close> and no additionalProperties.\<close>

definition doc_rpc :: definition_t where
  "doc_rpc = \<lparr>Properties = [(''payload'', no_property\<lparr>Type := ''object''\<rparr>)],
     d_Description = ''An RPC.''\<rparr>"

definition doc_object_property :: schema where
  "doc_object_property = \<lparr>Paths = [], Definitions = [(''rpc'', doc_rpc)]\<rparr>"

text \<open>The same document twice, its maps enumerated in two orders.\<close>

definition doc_device :: definition_t where
  "doc_device = \<lparr>Properties = [(''id'', no_property\<lparr>Type := ''string''\<rparr>)],
     d_Description = ''A device.''\<rparr>"

definition doc_healthcheck :: operation where
  "doc_healthcheck = \<lparr>Summary = ''A healthcheck.'', OperationId = ''healthcheck'',
     Responses_Ok_Schema = \<lparr>rs_Ref = []\<rparr>, Parameters = []\<rparr>"

definition doc_one_order :: schema where
  "doc_one_order = \<lparr>Paths =
       [(''/v2/account/{user_id}'', [(''put'', doc_update), (''get'', doc_healthcheck)]),
        (''/healthcheck'', [(''get'', doc_healthcheck)])],
     Definitions = [(''device'', doc_device), (''account'', doc_account)]\<rparr>"

definition doc_other_order :: schema where
  "doc_other_order = \<lparr>Paths =
       [(''/healthcheck'', [(''get'', doc_healthcheck)]),
        (''/v2/account/{user_id}'', [(''get'', doc_healthcheck), (''put'', doc_update)])],
     Definitions =
       [(''account'', doc_account\<lparr>Properties := rev (Properties doc_account)\<rparr>),
        (''device'', doc_device)]\<rparr>"

text \<open>The document with no definitions and no paths.\<close>

definition doc_empty :: schema where
  "doc_empty = \<lparr>Paths = [], Definitions = []\<rparr>"

section \<open>Properties\<close>

subsection \<open>Camel case\<close>

text \<open>The loop after index 0 appends \<open>camel_tail\<close> of the rest to the result so far.\<close>

lemma loop_tail: "0 < k \<Longrightarrow> snakeCaseToCamelCase_loop input k up acc vs = acc @ camel_tail up vs"
  by (induction vs arbitrary: k up acc) (simp_all add: strings_ToUpper_def)

lemma snake_Nil: "snakeCaseToCamelCase [] = []"
  by (simp add: snakeCaseToCamelCase_def)

lemma snake_Cons: "snakeCaseToCamelCase (c # cs) = unicode_ToLower c # camel_tail False cs"
  by (simp add: snakeCaseToCamelCase_def loop_tail strings_ToLower_def)

lemma upper_underscore:
  "unicode_ToUpper v = CHR ''_'' \<longleftrightarrow> v = CHR ''_''"
  "CHR ''_'' = unicode_ToUpper v \<longleftrightarrow> v = CHR ''_''"
  by (auto simp: unicode_ToUpper_def ascii_lower_def ascii_upper_def split: option.splits if_splits)

lemma lower_underscore:
  "unicode_ToLower v = CHR ''_'' \<longleftrightarrow> v = CHR ''_''"
  "CHR ''_'' = unicode_ToLower v \<longleftrightarrow> v = CHR ''_''"
  by (auto simp: unicode_ToLower_def ascii_lower_def ascii_upper_def split: option.splits if_splits)

lemma lower_idem: "unicode_ToLower (unicode_ToLower c) = unicode_ToLower c"
  by (auto simp: unicode_ToLower_def ascii_lower_def ascii_upper_def split: option.splits if_splits)

lemma adjacent_Cons:
  "adjacent_underscores (v # vs) \<longleftrightarrow> (v = CHR ''_'' \<and> leading_underscore vs) \<or> adjacent_underscores vs"
  by (cases vs) (simp_all add: leading_underscore_def)

lemma underscore_in_camel_tail:
  "CHR ''_'' \<in> set (camel_tail up cs) \<longleftrightarrow> (up \<and> leading_underscore cs) \<or> adjacent_underscores cs"
proof (induction cs arbitrary: up)
  case Nil
  show ?case by (simp add: leading_underscore_def)
next
  case (Cons v vs)
  show ?case
    by (simp add: Cons.IH adjacent_Cons upper_underscore) (auto simp: leading_underscore_def)
qed

lemma underscore_in_camelCase:
  "CHR ''_'' \<in> set (snakeCaseToCamelCase s) \<longleftrightarrow> leading_underscore s \<or> adjacent_underscores s"
proof (cases s)
  case Nil
  then show ?thesis by (simp add: snake_Nil leading_underscore_def)
next
  case (Cons c cs)
  then show ?thesis
    by (simp add: snake_Cons underscore_in_camel_tail adjacent_Cons lower_underscore)
       (auto simp: leading_underscore_def)
qed

lemma camel_tail_id: "CHR ''_'' \<notin> set t \<Longrightarrow> camel_tail False t = t"
  by (induction t) auto

lemma camelCase_idem:
  assumes "CHR ''_'' \<notin> set (snakeCaseToCamelCase s)"
  shows "snakeCaseToCamelCase (snakeCaseToCamelCase s) = snakeCaseToCamelCase s"
proof (cases s)
  case Nil
  then show ?thesis by (simp add: snake_Nil)
next
  case (Cons c cs)
  with assms have "CHR ''_'' \<notin> set (camel_tail False cs)"
    by (simp add: snake_Cons)
  then show ?thesis
    using Cons by (simp add: snake_Cons lower_idem camel_tail_id)
qed

text \<open>
  Claim C4, as amended.  For every input of lower-case ASCII letters, digits and underscores
  that does not start with an underscore and holds no two underscores side by side, the
  output of \<^verbatim>\<open>snakeCaseToCamelCase\<close> holds no underscore, and the function maps its
  output to itself.  (By \<open>underscore_in_camelCase\<close> the two conditions are exactly the
  inputs whose output holds no underscore.)
\<close>

theorem toCamelCase_snake_input:
  assumes "is_snake_input s" and "\<not> leading_underscore s" and "\<not> adjacent_underscores s"
  shows "CHR ''_'' \<notin> set (snakeCaseToCamelCase s)
    \<and> snakeCaseToCamelCase (snakeCaseToCamelCase s) = snakeCaseToCamelCase s"
proof -
  from assms(2,3) have "CHR ''_'' \<notin> set (snakeCaseToCamelCase s)"
    by (simp add: underscore_in_camelCase)
  then show ?thesis by (simp add: camelCase_idem)
qed

text \<open>The amended claim C4 at \<open>user_id\<close>, which becomes \<open>userId\<close>.\<close>

theorem toCamelCase_snake_input_witness:
  "is_snake_input ''user_id'' \<and> \<not> leading_underscore ''user_id'' \<and> \<not> adjacent_underscores ''user_id''
   \<and> snakeCaseToCamelCase ''user_id'' = ''userId''
   \<and> CHR ''_'' \<notin> set (snakeCaseToCamelCase ''user_id'')
   \<and> snakeCaseToCamelCase (snakeCaseToCamelCase ''user_id'') = snakeCaseToCamelCase ''user_id''"
proof -
  have a: "is_snake_input ''user_id''"
    by (simp add: is_snake_input_def ascii_lower_def)
  have b: "\<not> leading_underscore ''user_id''"
    by (simp add: leading_underscore_def)
  have c: "\<not> adjacent_underscores ''user_id''"
    by simp
  have d: "snakeCaseToCamelCase ''user_id'' = ''userId''"
    by (simp add: snake_Cons unicode_ToLower_def unicode_ToUpper_def ascii_lower_def ascii_upper_def)
  from toCamelCase_snake_input [OF a b c] a b c d show ?thesis
    by simp
qed

text \<open>
  Claim C4 as stated fails at \<open>a__b\<close>: the character after the first underscore is the
  second underscore, which is upper-cased to itself and kept, so the output \<open>a_b\<close> holds
  an underscore, and a second pass turns it into \<open>aB\<close>.
\<close>

theorem toCamelCase_counterexample:
  "is_snake_input ''a__b''
   \<and> snakeCaseToCamelCase ''a__b'' = ''a_b''
   \<and> CHR ''_'' \<in> set (snakeCaseToCamelCase ''a__b'')
   \<and> snakeCaseToCamelCase (snakeCaseToCamelCase ''a__b'') = ''aB''
   \<and> snakeCaseToCamelCase (snakeCaseToCamelCase ''a__b'') \<noteq> snakeCaseToCamelCase ''a__b''"
  by (simp add: is_snake_input_def snakeCaseToCamelCase_def strings_ToLower_def strings_ToUpper_def
      unicode_ToLower_def unicode_ToUpper_def ascii_lower_def ascii_upper_def)

subsection \<open>References to type names\<close>

text \<open>
  Claim C3.  \<^verbatim>\<open>convertRefToClassName\<close> maps \<open>#/definitions/leaderboard_record\<close> to
  \<open>Leaderboard_record\<close>: the prefix is stripped, the first character of the rest is
  capitalized, and the rest after it, the underscore and the letters behind it, is as it was.
\<close>

theorem refToTypeName_leaderboard_record:
  "convertRefToClassName ''#/definitions/leaderboard_record'' = ''Leaderboard_record''
   \<and> strings_TrimPrefix ''#/definitions/leaderboard_record'' ''#/definitions/'' = ''leaderboard_record''
   \<and> tl (convertRefToClassName ''#/definitions/leaderboard_record'') = tl ''leaderboard_record''"
  by (simp add: convertRefToClassName_def strings_TrimPrefix_def strings_Title_def isSeparator_def
      unicode_ToTitle_def unicode_ToUpper_def ascii_lower_def ascii_upper_def ascii_digit_def)

text \<open>
  The same for every reference whose name is one word of letters, digits and underscores:
  only the first character changes.
\<close>

lemma Title_map_word: "\<not> isSeparator prev \<Longrightarrow> one_word s \<Longrightarrow> Title_map prev s = s"
  by (induction s arbitrary: prev) (simp_all add: one_word_def)

lemma space_isSeparator: "isSeparator (CHR '' '')"
  by (simp add: isSeparator_def ascii_digit_def ascii_lower_def ascii_upper_def)

lemma Title_one_word:
  assumes "one_word (c # cs)"
  shows "strings_Title (c # cs) = unicode_ToTitle c # cs"
proof -
  from assms have "\<not> isSeparator c" and "one_word cs"
    by (simp_all add: one_word_def)
  then have "Title_map c cs = cs"
    by (rule Title_map_word)
  then show ?thesis
    by (simp add: strings_Title_def space_isSeparator)
qed

lemma TrimPrefix_append: "strings_TrimPrefix (pre @ s) pre = s"
  by (simp add: strings_TrimPrefix_def)

lemma refToTypeName_one_word:
  "one_word (c # cs) \<Longrightarrow> convertRefToClassName (''#/definitions/'' @ c # cs) = unicode_ToTitle c # cs"
  unfolding convertRefToClassName_def Let_def TrimPrefix_append by (rule Title_one_word)

lemma refToTypeName_empty: "convertRefToClassName [] = []"
  by (simp add: convertRefToClassName_def strings_TrimPrefix_def strings_Title_def)

subsection \<open>Pieces that run one after the other\<close>

text \<open>
  A piece that ends without an error hands over to the next one; a piece that fails ends
  the execution with the text it wrote.
\<close>

lemma seq_Cons_None: "snd x = None \<Longrightarrow> seq (x # xs) = (fst x @ fst (seq xs), snd (seq xs))"
  by (cases x) (simp split: prod.splits)

lemma seq_Cons_Some: "snd x = Some e \<Longrightarrow> seq (x # xs) = x"
  by (cases x) simp

lemma seq_emit: "seq (emit t # xs) = (t @ fst (seq xs), snd (seq xs))"
  by (simp add: emit_def split: prod.splits)

lemma seq_abort: "seq (abort e # xs) = ([], Some e)"
  by (simp add: abort_def)

lemma prefix_seq: "prefix (fst x) (fst (seq (x # xs)))"
  by (cases x; cases "snd x") (simp_all split: prod.splits)

lemma snd_seq_None: "snd (seq xs) = None \<longleftrightarrow> list_all (\<lambda>x. snd x = None) xs"
proof (induction xs)
  case Nil
  show ?case by simp
next
  case (Cons x xs)
  show ?case
  proof (cases "snd x")
    case None
    then show ?thesis by (simp add: seq_Cons_None Cons.IH)
  next
    case (Some e)
    then show ?thesis by (simp add: seq_Cons_Some)
  qed
qed

lemma fst_seq_None: "list_all (\<lambda>x. snd x = None) xs \<Longrightarrow> fst (seq xs) = concat (map fst xs)"
  by (induction xs) (simp_all add: seq_Cons_None)

lemma seq_all_None: "list_all (\<lambda>x. snd x = None) xs \<Longrightarrow> seq xs = (concat (map fst xs), None)"
  by (rule prod_eqI) (simp_all add: fst_seq_None snd_seq_None)

lemma fst_emit: "fst (emit t) = t"
  by (simp add: emit_def)

lemma seq_single: "snd x = None \<Longrightarrow> seq [x] = x"
  by (cases x) simp

lemma snd_emit: "snd (emit t) = None"
  by (simp add: emit_def)

lemma snd_range_slice: "snd (range_slice body xs) = None \<longleftrightarrow> list_all (\<lambda>x. snd (body x) = None) xs"
  by (simp add: range_slice_def snd_seq_None list_all_iff)

lemma snd_range_map:
  "snd (range_map body m) = None \<longleftrightarrow> list_all (\<lambda>(k, v). snd (body k v) = None) m"
  by (simp add: range_map_def snd_seq_None list_all_iff split_def)

lemma range_slice_emit:
  "(\<And>x. body x = emit (text x)) \<Longrightarrow> range_slice body xs = emit (concat (map text xs))"
  by (induction xs) (simp_all add: range_slice_def seq_emit, simp_all add: emit_def)

subsection \<open>Evaluating the samples\<close>

lemmas eval_naming = snakeCaseToCamelCase_def strings_ToLower_def strings_ToUpper_def
  unicode_ToLower_def unicode_ToUpper_def unicode_ToTitle_def ascii_lower_def ascii_upper_def
  ascii_digit_def convertRefToClassName_def strings_TrimPrefix_def strings_Title_def isSeparator_def

lemmas eval_render = render_property_def render_definition_def render_argument_def
  render_required_def render_path_replace_def render_query_entry_def render_body_def
  render_operation_def render_path_def range_map_def range_slice_def return_type_def
  optional_mark_def seq_emit seq_abort

lemmas eval_docs = doc_account_def doc_update_def doc_user_id_def doc_dry_run_def doc_body_def
  doc_device_def doc_healthcheck_def doc_filter_def doc_list_users_def doc_get_filtered_def
  doc_rpc_def no_property_def no_parameter_def

subsection \<open>The two actions that fail\<close>

text \<open>
  A field fails exactly when its type tag is \<open>object\<close> and the type of its
  additionalProperties is none of \<open>string\<close>, \<open>integer\<close>, \<open>boolean\<close> (line 70); an
  argument fails exactly when it is outside path and body and its type tag is \<open>object\<close>
  (line 155).  The text written before the failing action stays in the output.
\<close>

lemma snd_render_property: "snd (render_property fieldname p) = None \<longleftrightarrow> property_renders p"
  by (simp add: render_property_def property_renders_def seq_emit seq_abort)

lemma snd_render_argument: "snd (render_argument p) = None \<longleftrightarrow> argument_renders p"
  by (simp add: render_argument_def argument_renders_def seq_emit seq_abort Let_def)

lemma snd_render_definition: "snd (render_definition classname d) = None \<longleftrightarrow> definition_renders d"
  by (simp add: render_definition_def definition_renders_def snd_seq_None snd_emit snd_range_map
      snd_render_property)

lemma range_required: "range_slice render_required ps = emit (required_checks ps)"
  unfolding required_checks_def
  by (rule range_slice_emit) (simp add: render_required_def)

lemma snd_range_path_replace: "snd (range_slice render_path_replace ps) = None"
  by (simp add: snd_range_slice render_path_replace_def list_all_iff emit_def Let_def)

lemma snd_range_query: "snd (range_slice render_query_entry ps) = None"
  by (simp add: snd_range_slice render_query_entry_def list_all_iff emit_def Let_def)

lemma snd_range_body: "snd (range_slice render_body ps) = None"
  by (simp add: snd_range_slice render_body_def list_all_iff emit_def Let_def)

lemma snd_range_argument:
  "snd (range_slice render_argument ps) = None \<longleftrightarrow> list_all argument_renders ps"
  by (simp add: snd_range_slice snd_render_argument)

lemma snd_render_operation:
  "snd (render_operation url method operation) = None \<longleftrightarrow> operation_renders operation"
  by (simp add: render_operation_def snd_seq_None snd_emit snd_range_path_replace snd_range_query
      snd_range_body range_required operation_renders_def snd_range_argument)

lemma object_argument_aborts:
  assumes "p_In p \<noteq> ''path''" and "p_In p \<noteq> ''body''" and "p_Type p = ''object''"
  shows "render_argument p =
    (snakeCaseToCamelCase (p_Name p) @ optional_mark p @ '': Map<'', Some CantEvaluateField)"
  using assms by (simp add: render_argument_def seq_emit seq_abort Let_def)

lemma object_property_aborts:
  assumes "Type p = ''object''"
    and "ap_Type (AdditionalProperties p) \<notin> {''string'', ''integer'', ''boolean''}"
  shows "render_property fieldname p =
    (newline @ ''  // '' @ Description p @ newline @ ''  '' @ fieldname @ ''?: Map<'',
     Some WrongTypeForValue)"
  using assms by (simp add: render_property_def seq_emit seq_abort)

text \<open>
  At the sample definition the output ends inside the field, and nothing of the factory
  is written.
\<close>

lemma object_property_output:
  "codeTemplate_Execute doc_object_property =
     (codeTemplate_preamble
      @ joinlines
        [[],
         ''/** An RPC. */'',
         ''export interface Rpc {'',
         ''  // '',
         ''  payload?: Map<''],
      Some WrongTypeForValue)"
  by (simp add: codeTemplate_Execute_def doc_object_property_def eval_render eval_naming eval_docs)

subsection \<open>Fields of a definition\<close>

text \<open>
  Claim C2 (the code differs from it).  A property with type tag \<open>object\<close> whose
  additionalProperties has type \<open>integer\<close> is given the field type
  \<open>Map<string, integer>\<close>: line 66 writes the schema's tag, where line 47 and line 56
  write \<open>number\<close> for the same tag.  The array of integers beside it shows the spelling
  the claim expects.
\<close>

theorem map_of_integer_field:
  "render_property ''counts''
     (no_property\<lparr>Type := ''object'', AdditionalProperties := \<lparr>ap_Type = ''integer''\<rparr>\<rparr>)
   = emit (joinlines [[], ''  // '', ''  counts?: Map<string, integer>;''])
   \<and> render_property ''counts''
     (no_property\<lparr>Type := ''array'', Items := \<lparr>it_Type = ''integer'', it_Ref = []\<rparr>\<rparr>)
   = emit (joinlines [[], ''  // '', ''  counts?: Array<number>;''])"
  by (simp add: render_property_def no_property_def seq_emit emit_def)

text \<open>
  Claim C9.  A property whose type tag is none of \<open>integer\<close>, \<open>number\<close>, \<open>boolean\<close>,
  \<open>string\<close>, \<open>array\<close>, \<open>object\<close> (an absent tag is the empty string) is written as a
  reference: the field type is the type name made from the property's reference field.
  When that field is empty the type name is empty, and the field is still written.
\<close>

theorem unknown_type_tag_is_reference:
  assumes "Type p \<notin> {''integer'', ''number'', ''boolean'', ''string'', ''array'', ''object''}"
  shows "render_property fieldname p =
      emit (newline @ ''  // '' @ Description p @ newline @ ''  '' @ fieldname @ ''?: ''
            @ convertRefToClassName (Ref p) @ '';'')
    \<and> (Ref p = [] \<longrightarrow> render_property fieldname p =
      emit (newline @ ''  // '' @ Description p @ newline @ ''  '' @ fieldname @ ''?: ;''))"
  using assms by (simp add: render_property_def seq_emit emit_def refToTypeName_empty)

text \<open>Claim C9 at an unknown tag with no reference, and at an absent tag with a reference.\<close>

theorem unknown_type_tag_is_reference_witness:
  "Type (no_property\<lparr>Type := ''file''\<rparr>) \<notin> {''integer'', ''number'', ''boolean'', ''string'', ''array'', ''object''}
   \<and> render_property ''avatar'' (no_property\<lparr>Type := ''file''\<rparr>)
     = emit (joinlines [[], ''  // '', ''  avatar?: ;''])
   \<and> render_property ''owner'' (no_property\<lparr>Ref := ''#/definitions/missing''\<rparr>)
     = emit (joinlines [[], ''  // '', ''  owner?: Missing;''])"
proof -
  have a: "Type (no_property\<lparr>Type := ''file''\<rparr>) \<notin> {''integer'', ''number'', ''boolean'', ''string'', ''array'', ''object''}"
    by (simp add: no_property_def)
  have b: "Type (no_property\<lparr>Ref := ''#/definitions/missing''\<rparr>) \<notin> {''integer'', ''number'', ''boolean'', ''string'', ''array'', ''object''}"
    by (simp add: no_property_def)
  have c: "convertRefToClassName ''#/definitions/missing'' = ''Missing''"
    by (simp add: eval_naming)
  from unknown_type_tag_is_reference [OF a, of "''avatar''"]
    unknown_type_tag_is_reference [OF b, of "''owner''"] a c
  show ?thesis
    by (simp add: no_property_def refToTypeName_empty)
qed

subsection \<open>Arguments outside path, query and body\<close>




subsection \<open>Methods\<close>

text \<open>The checks of a list of parameters are the checks of its parts.\<close>

lemma required_checks_append:
  "required_checks (ps1 @ ps2) = required_checks ps1 @ required_checks ps2"
  by (simp add: required_checks_def)

lemma required_checks_Cons:
  "p_Required p \<Longrightarrow>
   required_checks (p # ps) = required_check (snakeCaseToCamelCase (p_Name p)) @ required_checks ps"
  by (simp add: required_checks_def)

text \<open>
  The text of a method whose arguments all render: the signature, the checks of the
  required parameters, the wiring of path, query and body, and the call of the dispatcher.
\<close>

lemma render_operation_text:
  assumes "operation_renders operation"
  shows \<open>render_operation url method operation =
    (newline @ ''    /** '' @ Summary operation @ '' */'' @ newline @ ''    ''
       @ snakeCaseToCamelCase (OperationId operation) @ ''(''
       @ fst (range_slice render_argument (Parameters operation))
       @ ''options: any = {}): Promise<'' @ return_type operation @ ''> {''
       @ required_checks (Parameters operation)
       @ newline @ ''      const urlPath = "'' @ url @ ''"''
       @ fst (range_slice render_path_replace (Parameters operation))
       @ '';'' @ newline @ newline @ ''      const queryParams = {''
       @ fst (range_slice render_query_entry (Parameters operation))
       @ newline @ ''      } as any;'' @ newline @ newline @ ''      let _body = null;''
       @ fst (range_slice render_body (Parameters operation))
       @ dispatch_call method, None)\<close>
proof -
  from assms have "snd (range_slice render_argument (Parameters operation)) = None"
    by (simp add: snd_range_argument operation_renders_def)
  then show ?thesis
    unfolding render_operation_def
    by (subst seq_all_None)
       (simp_all add: snd_emit fst_emit snd_range_path_replace snd_range_query snd_range_body
          range_required)
qed

lemma fst_range_argument:
  assumes "operation_renders operation"
  shows "fst (range_slice render_argument (Parameters operation))
    = concat (map (\<lambda>p. fst (render_argument p)) (Parameters operation))"
proof -
  from assms have "list_all (\<lambda>x. snd x = None) (map render_argument (Parameters operation))"
    by (simp add: operation_renders_def list_all_iff snd_render_argument)
  then show ?thesis
    by (simp add: range_slice_def fst_seq_None comp_def)
qed

lemma required_argument_name:
  assumes "p_Required p"
  shows "prefix (snakeCaseToCamelCase (p_Name p) @ '': '') (fst (render_argument p))"
  using assms
  by (simp add: render_argument_def optional_mark_def seq_emit seq_abort fst_emit Let_def)

lemma doc_update_renders: "operation_renders doc_update"
  by (simp add: operation_renders_def argument_renders_def eval_docs)

text \<open>
  For every operation whose arguments render, the argument list of the method is the
  schema's parameters in their order, each followed by a comma and a blank, and then
  \<open>options: any = {}\<close>, which closes the list: the options argument is the last one,
  it has a default and so is optional, and the default is the empty object, however many
  parameters stand before it.
\<close>

lemma options_argument_last:
  assumes "operation_renders operation"
  shows "\<exists>body. render_operation url method operation =
    (newline @ ''    /** '' @ Summary operation @ '' */'' @ newline @ ''    ''
       @ snakeCaseToCamelCase (OperationId operation) @ ''(''
       @ concat (map (\<lambda>p. fst (render_argument p)) (Parameters operation))
       @ ''options: any = {}): Promise<'' @ return_type operation @ ''> {''
       @ body, None)"
  unfolding render_operation_text [OF assms] fst_range_argument [OF assms]
  by simp

text \<open>The sample operation, with three parameters, and one with none.\<close>

lemma options_argument_last_samples:
  "operation_renders doc_update
   \<and> (\<exists>body. render_operation ''/v2/account/{user_id}'' ''put'' doc_update =
     (joinlines
        [[],
         ''    /** Update the account. */'',
         ''    updateAccount(userId: string, dryRun?: boolean, body: Absent, options: any = {}): Promise<Gone> {'']
      @ body, None))
   \<and> operation_renders doc_healthcheck
   \<and> (\<exists>body. render_operation ''/healthcheck'' ''get'' doc_healthcheck =
     (joinlines
        [[],
         ''    /** A healthcheck. */'',
         ''    healthcheck(options: any = {}): Promise<any> {'']
      @ body, None))"
proof -
  have a: "operation_renders doc_update"
    by (rule doc_update_renders)
  have b: "operation_renders doc_healthcheck"
    by (simp add: operation_renders_def doc_healthcheck_def)
  from options_argument_last [OF a, of "''/v2/account/{user_id}''" "''put''"]
    options_argument_last [OF b, of "''/healthcheck''" "''get''"] a b
  show ?thesis
    by (simp add: eval_docs eval_render eval_naming fst_emit)
qed

text \<open>
  Claim C7 (the code differs from it).  The claim gives every operation an argument list
  that ends with \<open>options: any = {}\<close>.  An operation with a parameter outside path and
  body whose type tag is \<open>object\<close> has none: line 155 reads a field the parameter
  struct does not have, the execution stops inside the argument list, and the output ends
  there, without the options argument, the rest of the method and the rest of the file.
\<close>

theorem options_argument_missing:
  "render_operation ''/v2/user'' ''get'' doc_list_users =
     (joinlines
        [[],
         ''    /** List users. */'',
         ''    listUsers(filter?: Map<''],
      Some CantEvaluateField)
   \<and> codeTemplate_Execute doc_object_parameter =
     (codeTemplate_preamble @ codeTemplate_api_head
      @ joinlines
        [[],
         ''    /** List users. */'',
         ''    listUsers(filter?: Map<''],
      Some CantEvaluateField)"
proof -
  have a: "render_operation ''/v2/user'' ''get'' doc_list_users =
     (joinlines
        [[],
         ''    /** List users. */'',
         ''    listUsers(filter?: Map<''],
      Some CantEvaluateField)"
    by (simp add: eval_render eval_naming eval_docs)
  show ?thesis
    by (simp add: a codeTemplate_Execute_def doc_object_parameter_def range_map_def
        render_path_def seq_emit)
qed

text \<open>
  The checks of a method hold the check of every required parameter: the statement that
  throws when the argument is \<open>null\<close> or \<open>undefined\<close>, with a message that quotes the
  camel-case name under which the signature declares the argument.  In every method that
  is written (its arguments render), the checks stand right behind the signature, before
  the wiring of path, query and body, and the call of the dispatcher is the last
  statement, behind all of them.  (What the emitted statement does is the reading of its
  text; the execution of JavaScript is not part of the model.)
\<close>

lemma required_check_before_dispatch:
  assumes "Parameters operation = ps1 @ p # ps2"
    and "p_Required p"
  shows \<open>range_slice render_required (Parameters operation) =
      emit (required_checks ps1 @ required_check (snakeCaseToCamelCase (p_Name p))
            @ required_checks ps2)
    \<and> prefix (snakeCaseToCamelCase (p_Name p) @ '': '') (fst (render_argument p))
    \<and> (operation_renders operation \<longrightarrow>
        (\<exists>signature. render_operation url method operation =
          (signature @ required_checks ps1
             @ required_check (snakeCaseToCamelCase (p_Name p))
             @ required_checks ps2
             @ newline @ ''      const urlPath = "'' @ url @ ''"''
             @ fst (range_slice render_path_replace (Parameters operation))
             @ '';'' @ newline @ newline @ ''      const queryParams = {''
             @ fst (range_slice render_query_entry (Parameters operation))
             @ newline @ ''      } as any;'' @ newline @ newline @ ''      let _body = null;''
             @ fst (range_slice render_body (Parameters operation))
             @ dispatch_call method, None)))\<close>
proof -
  from assms have checks: "required_checks (Parameters operation)
      = required_checks ps1 @ required_check (snakeCaseToCamelCase (p_Name p)) @ required_checks ps2"
    by (simp add: required_checks_append required_checks_Cons)
  show ?thesis
  proof (intro conjI impI)
    from checks show "range_slice render_required (Parameters operation) =
        emit (required_checks ps1 @ required_check (snakeCaseToCamelCase (p_Name p))
              @ required_checks ps2)"
      by (simp add: range_required)
  next
    from assms(2) show "prefix (snakeCaseToCamelCase (p_Name p) @ '': '') (fst (render_argument p))"
      by (rule required_argument_name)
  next
    assume "operation_renders operation"
    then show \<open>\<exists>signature. render_operation url method operation =
          (signature @ required_checks ps1
             @ required_check (snakeCaseToCamelCase (p_Name p))
             @ required_checks ps2
             @ newline @ ''      const urlPath = "'' @ url @ ''"''
             @ fst (range_slice render_path_replace (Parameters operation))
             @ '';'' @ newline @ newline @ ''      const queryParams = {''
             @ fst (range_slice render_query_entry (Parameters operation))
             @ newline @ ''      } as any;'' @ newline @ newline @ ''      let _body = null;''
             @ fst (range_slice render_body (Parameters operation))
             @ dispatch_call method, None)\<close>
      using checks by (simp add: render_operation_text)
  qed
qed

text \<open>The sample operation and its required path parameter \<open>user_id\<close>.\<close>

lemma required_check_before_dispatch_sample:
  \<open>Parameters doc_update = [] @ doc_user_id # [doc_dry_run, doc_body]
   \<and> p_Required doc_user_id
   \<and> operation_renders doc_update
   \<and> snakeCaseToCamelCase (p_Name doc_user_id) = ''userId''
   \<and> required_check ''userId'' =
       joinlines
         [[],
          ''      if (userId === null || userId === undefined) {'',
          ''        throw new Error("'' @ squote @ ''userId'' @ squote @ '' is a required parameter but is null or undefined.");'',
          ''      }'']
   \<and> range_slice render_required (Parameters doc_update) =
      emit (required_checks [] @ required_check (snakeCaseToCamelCase (p_Name doc_user_id))
            @ required_checks [doc_dry_run, doc_body])
   \<and> prefix (snakeCaseToCamelCase (p_Name doc_user_id) @ '': '') (fst (render_argument doc_user_id))
   \<and> (\<exists>signature. render_operation ''/v2/account/{user_id}'' ''put'' doc_update =
      (signature @ required_checks []
         @ required_check (snakeCaseToCamelCase (p_Name doc_user_id))
         @ required_checks [doc_dry_run, doc_body]
         @ newline @ ''      const urlPath = "'' @ ''/v2/account/{user_id}'' @ ''"''
         @ fst (range_slice render_path_replace (Parameters doc_update))
         @ '';'' @ newline @ newline @ ''      const queryParams = {''
         @ fst (range_slice render_query_entry (Parameters doc_update))
         @ newline @ ''      } as any;'' @ newline @ newline @ ''      let _body = null;''
         @ fst (range_slice render_body (Parameters doc_update))
         @ dispatch_call ''put'', None))\<close>
proof -
  have a: "operation_renders doc_update"
    by (rule doc_update_renders)
  have b: "Parameters doc_update = [] @ doc_user_id # [doc_dry_run, doc_body]"
    by (simp add: doc_update_def)
  have c: "p_Required doc_user_id"
    by (simp add: doc_user_id_def)
  have d: "snakeCaseToCamelCase (p_Name doc_user_id) = ''userId''"
    by (simp add: doc_user_id_def eval_naming)
  have e: \<open>required_check ''userId'' =
       joinlines
         [[],
          ''      if (userId === null || userId === undefined) {'',
          ''        throw new Error("'' @ squote @ ''userId'' @ squote @ '' is a required parameter but is null or undefined.");'',
          ''      }'']\<close>
    by (simp add: required_check_def)
  note t = required_check_before_dispatch [OF b c, of "''/v2/account/{user_id}''" "''put''"]
  show ?thesis
    by (intro conjI b c a d e t [THEN conjunct1] t [THEN conjunct2, THEN conjunct1]
        t [THEN conjunct2, THEN conjunct2, THEN mp, OF a])
qed

text \<open>
  Claim C6 (the code differs from it).  The claim gives every required parameter of every
  operation its check in the body of the method.  The sample operation has the required
  path parameter \<open>user_id\<close> and, behind it, a query parameter of type \<open>object\<close>: the
  execution stops inside the argument list (line 155, the defect of claim C7), the output
  ends there, and neither the check of \<open>userId\<close> nor the rest of the method, with
  its call of the dispatcher, is written.
\<close>

theorem required_check_missing:
  \<open>doc_user_id \<in> set (Parameters doc_get_filtered)
   \<and> p_Required doc_user_id
   \<and> codeTemplate_Execute doc_required_then_object =
     (codeTemplate_preamble @ codeTemplate_api_head
      @ joinlines
        [[],
         ''    /** Get a user. */'',
         ''    getUser(userId: string, filter?: Map<''],
      Some CantEvaluateField)
   \<and> \<not> sublist (required_check (snakeCaseToCamelCase (p_Name doc_user_id)))
         (main_output doc_required_then_object)\<close>
proof -
  have out: \<open>codeTemplate_Execute doc_required_then_object =
     (codeTemplate_preamble @ codeTemplate_api_head
      @ joinlines
        [[],
         ''    /** Get a user. */'',
         ''    getUser(userId: string, filter?: Map<''],
      Some CantEvaluateField)\<close>
    by (simp add: codeTemplate_Execute_def doc_required_then_object_def eval_render eval_naming
        eval_docs)
  have a: "doc_user_id \<in> set (Parameters doc_get_filtered)" and b: "p_Required doc_user_id"
    by (simp_all add: doc_get_filtered_def doc_user_id_def)
  have name: "snakeCaseToCamelCase (p_Name doc_user_id) = ''userId''"
    by (simp add: doc_user_id_def eval_naming)
  have "\<not> sublist ''=== undefined'' (main_output doc_required_then_object)"
    by (simp add: main_output_def out sublist_Cons_right newline_def codeTemplate_preamble_def
        codeTemplate_api_head_def)
  moreover have "sublist ''=== undefined'' (required_check (snakeCaseToCamelCase (p_Name doc_user_id)))"
    unfolding name
    by (simp add: required_check_def sublist_Cons_right newline_def squote_def)
  ultimately have c: "\<not> sublist (required_check (snakeCaseToCamelCase (p_Name doc_user_id)))
      (main_output doc_required_then_object)"
    by (metis sublist_order.order_trans)
  show ?thesis
    by (intro conjI a b out c)
qed

subsection \<open>The whole output\<close>

text \<open>The execution ends without an error exactly on the schemas free of the two failing shapes.\<close>

lemma snd_Execute: "snd (codeTemplate_Execute s) = None \<longleftrightarrow> schema_renders s"
  by (simp add: codeTemplate_Execute_def snd_seq_None snd_emit snd_range_map snd_render_definition
      render_path_def snd_render_operation schema_renders_def)

lemma Execute_text:
  assumes "schema_renders s"
  shows "codeTemplate_Execute s =
    (codeTemplate_preamble @ fst (range_map render_definition (Definitions s))
       @ codeTemplate_api_head @ fst (range_map render_path (Paths s)) @ codeTemplate_api_tail,
     None)"
proof -
  from assms have "snd (range_map render_definition (Definitions s)) = None"
    and "snd (range_map render_path (Paths s)) = None"
    by (simp_all add: snd_range_map snd_render_definition render_path_def snd_render_operation
        schema_renders_def)
  then show ?thesis
    unfolding codeTemplate_Execute_def
    by (subst seq_all_None) (simp_all add: snd_emit fst_emit)
qed

text \<open>
  A piece that ran stands in the text of the whole, and so the text of every field and of
  every method stands in the output of a schema that renders.
\<close>

lemma sublist_concat_member: "x \<in> set xs \<Longrightarrow> sublist x (concat xs)"
proof -
  assume "x \<in> set xs"
  then obtain a b where "xs = a @ x # b"
    by (auto dest: split_list)
  then have "concat xs = concat a @ x @ concat b"
    by simp
  then show ?thesis
    by (simp only: sublist_appendI)
qed

lemma sublist_seq:
  assumes "list_all (\<lambda>x. snd x = None) xs" and "x \<in> set xs"
  shows "sublist (fst x) (fst (seq xs))"
proof -
  from assms(2) have "fst x \<in> set (map fst xs)"
    by simp
  then have "sublist (fst x) (concat (map fst xs))"
    by (rule sublist_concat_member)
  with assms(1) show ?thesis
    by (simp add: fst_seq_None)
qed

lemma sublist_range_map:
  assumes "snd (range_map body m) = None" and "(k, v) \<in> set m"
  shows "sublist (fst (body k v)) (fst (range_map body m))"
proof -
  from assms(1) have "list_all (\<lambda>x. snd x = None) (map (\<lambda>(k, v). body k v) (sort_key fst m))"
    by (simp add: range_map_def snd_seq_None)
  moreover from assms(2) have "body k v \<in> set (map (\<lambda>(k, v). body k v) (sort_key fst m))"
    by force
  ultimately show ?thesis
    unfolding range_map_def by (rule sublist_seq)
qed

lemma sublist_range_slice:
  assumes "snd (range_slice body xs) = None" and "x \<in> set xs"
  shows "sublist (fst (body x)) (fst (range_slice body xs))"
proof -
  from assms(1) have "list_all (\<lambda>x. snd x = None) (map body xs)"
    by (simp add: range_slice_def snd_seq_None)
  moreover from assms(2) have "body x \<in> set (map body xs)"
    by simp
  ultimately show ?thesis
    unfolding range_slice_def by (rule sublist_seq)
qed

lemma sublist_in_middle: "sublist x y \<Longrightarrow> sublist x (a @ y @ b)"
  by (metis sublist_appendI sublist_order.order_trans)

text \<open>Where the text of a definition and of a method stands in the output.\<close>

lemma sublist_definition_output:
  assumes "schema_renders s" and "(classname, d) \<in> set (Definitions s)"
  shows "sublist (fst (render_definition classname d)) (main_output s)"
proof -
  from assms(1) have "snd (range_map render_definition (Definitions s)) = None"
    by (simp add: snd_range_map snd_render_definition schema_renders_def)
  from sublist_range_map [OF this assms(2)]
  have "sublist (fst (render_definition classname d))
      (codeTemplate_preamble @ fst (range_map render_definition (Definitions s))
       @ (codeTemplate_api_head @ fst (range_map render_path (Paths s)) @ codeTemplate_api_tail))"
    by (rule sublist_in_middle)
  then show ?thesis
    by (simp add: main_output_def Execute_text [OF assms(1)])
qed

lemma sublist_field_output:
  assumes "schema_renders s" and "(classname, d) \<in> set (Definitions s)"
    and "(fieldname, p) \<in> set (Properties d)"
  shows "sublist (fst (render_property fieldname p)) (main_output s)"
proof -
  from assms(1,2) have d: "definition_renders d"
    by (auto simp: schema_renders_def list_all_iff)
  then have ok: "snd (range_map render_property (Properties d)) = None"
    by (simp add: snd_range_map snd_render_property definition_renders_def)
  have "fst (render_definition classname d) =
      (newline @ ''/** '' @ d_Description d @ '' */'' @ newline
            @ ''export interface '' @ strings_Title classname @ '' {'')
      @ fst (range_map render_property (Properties d)) @ (newline @ ''}'')"
    unfolding render_definition_def
    by (subst seq_all_None) (simp_all add: snd_emit fst_emit ok)
  with sublist_range_map [OF ok assms(3)]
  have "sublist (fst (render_property fieldname p)) (fst (render_definition classname d))"
    by (simp only: sublist_in_middle)
  from this sublist_definition_output [OF assms(1,2)] show ?thesis
    by (rule sublist_order.order_trans)
qed

lemma sublist_method_output:
  assumes "schema_renders s" and "(url, path) \<in> set (Paths s)" and "(method, operation) \<in> set path"
  shows "sublist (fst (render_operation url method operation)) (main_output s)"
proof -
  from assms(1) have all: "snd (range_map render_path (Paths s)) = None"
    by (simp add: snd_range_map render_path_def snd_render_operation schema_renders_def)
  from assms(1,2) have "snd (range_map (render_operation url) path) = None"
    by (auto simp: snd_range_map snd_render_operation schema_renders_def list_all_iff)
  from sublist_range_map [OF this assms(3)]
  have "sublist (fst (render_operation url method operation)) (fst (render_path url path))"
    by (simp add: render_path_def)
  also from sublist_range_map [OF all assms(2)]
  have "sublist (fst (render_path url path)) (fst (range_map render_path (Paths s)))" .
  also have "sublist (fst (range_map render_path (Paths s)))
      ((codeTemplate_preamble @ fst (range_map render_definition (Definitions s))
       @ codeTemplate_api_head) @ fst (range_map render_path (Paths s)) @ codeTemplate_api_tail)"
    by (rule sublist_appendI)
  finally show ?thesis
    by (simp add: main_output_def Execute_text [OF assms(1)])
qed


lemma sublist_outer: "sublist x z \<Longrightarrow> sublist x (a @ z)"
  by (metis append_Nil2 sublist_in_middle)

lemma reference_field_output:
  assumes "schema_renders s" and "(classname, d) \<in> set (Definitions s)"
    and "(fieldname, p) \<in> set (Properties d)"
    and "Type p \<notin> {''integer'', ''number'', ''boolean'', ''string'', ''array'', ''object''}"
  shows "sublist (newline @ ''  '' @ fieldname @ ''?: '' @ convertRefToClassName (Ref p) @ '';'')
    (main_output s)"
proof -
  from assms(4) have "fst (render_property fieldname p) =
      (newline @ ''  // '' @ Description p)
      @ (newline @ ''  '' @ fieldname @ ''?: '' @ convertRefToClassName (Ref p) @ '';'')"
    by (simp add: render_property_def seq_emit fst_emit)
  then have "sublist (newline @ ''  '' @ fieldname @ ''?: '' @ convertRefToClassName (Ref p) @ '';'')
      (fst (render_property fieldname p))"
    by (simp only: sublist_outer sublist_order.order_refl)
  from this sublist_field_output [OF assms(1,2,3)] show ?thesis
    by (rule sublist_order.order_trans)
qed

lemma reference_items_output:
  assumes "schema_renders s" and "(classname, d) \<in> set (Definitions s)"
    and "(fieldname, p) \<in> set (Properties d)"
    and "Type p = ''array''"
    and "it_Type (Items p) \<notin> {''string'', ''integer'', ''boolean''}"
  shows "sublist (newline @ ''  '' @ fieldname @ ''?: Array<''
      @ convertRefToClassName (it_Ref (Items p)) @ ''>;'') (main_output s)"
proof -
  from assms(4,5) have "fst (render_property fieldname p) =
      (newline @ ''  // '' @ Description p)
      @ (newline @ ''  '' @ fieldname @ ''?: Array<''
         @ convertRefToClassName (it_Ref (Items p)) @ ''>;'')"
    by (simp add: render_property_def seq_emit fst_emit)
  then have "sublist (newline @ ''  '' @ fieldname @ ''?: Array<''
      @ convertRefToClassName (it_Ref (Items p)) @ ''>;'') (fst (render_property fieldname p))"
    by (simp only: sublist_outer sublist_order.order_refl)
  from this sublist_field_output [OF assms(1,2,3)] show ?thesis
    by (rule sublist_order.order_trans)
qed

lemma operation_renders_member:
  assumes "schema_renders s" and "(url, path) \<in> set (Paths s)" and "(method, operation) \<in> set path"
  shows "operation_renders operation"
  using assms by (auto simp: schema_renders_def list_all_iff)

lemma reference_body_output:
  assumes "schema_renders s" and "(url, path) \<in> set (Paths s)" and "(method, operation) \<in> set path"
    and "p \<in> set (Parameters operation)"
    and "p_In p = ''body''" and "ps_Type (p_Schema p) \<noteq> ''string''"
  shows "sublist (snakeCaseToCamelCase (p_Name p) @ optional_mark p @ '': ''
      @ convertRefToClassName (ps_Ref (p_Schema p)) @ '', '') (main_output s)"
proof -
  note r = operation_renders_member [OF assms(1,2,3)]
  from assms(5,6) have "fst (render_argument p) =
      snakeCaseToCamelCase (p_Name p) @ optional_mark p @ '': ''
      @ convertRefToClassName (ps_Ref (p_Schema p)) @ '', ''"
    by (simp add: render_argument_def seq_emit fst_emit Let_def)
  moreover from r have "snd (range_slice render_argument (Parameters operation)) = None"
    by (simp add: snd_range_argument operation_renders_def)
  from sublist_range_slice [OF this assms(4)]
  have "sublist (fst (render_argument p)) (fst (range_slice render_argument (Parameters operation)))" .
  ultimately have "sublist (snakeCaseToCamelCase (p_Name p) @ optional_mark p @ '': ''
      @ convertRefToClassName (ps_Ref (p_Schema p)) @ '', '')
      (fst (range_slice render_argument (Parameters operation)))"
    by simp
  then have "sublist (snakeCaseToCamelCase (p_Name p) @ optional_mark p @ '': ''
      @ convertRefToClassName (ps_Ref (p_Schema p)) @ '', '')
      (fst (render_operation url method operation))"
    unfolding render_operation_text [OF r] fst_conv
    by (intro sublist_outer sublist_in_middle)
  from this sublist_method_output [OF assms(1,2,3)] show ?thesis
    by (rule sublist_order.order_trans)
qed

lemma reference_response_output:
  assumes "schema_renders s" and "(url, path) \<in> set (Paths s)" and "(method, operation) \<in> set path"
    and "convertRefToClassName (rs_Ref (Responses_Ok_Schema operation)) \<noteq> []"
  shows "sublist (''options: any = {}): Promise<''
      @ convertRefToClassName (rs_Ref (Responses_Ok_Schema operation)) @ ''> {'') (main_output s)"
proof -
  note r = operation_renders_member [OF assms(1,2,3)]
  from assms(4) have "return_type operation =
      convertRefToClassName (rs_Ref (Responses_Ok_Schema operation))"
    by (simp add: return_type_def)
  then have "sublist (''options: any = {}): Promise<''
      @ convertRefToClassName (rs_Ref (Responses_Ok_Schema operation)) @ ''> {'')
      (fst (render_operation url method operation))"
    unfolding render_operation_text [OF r] fst_conv
    by (metis append.assoc sublist_appendI)
  from this sublist_method_output [OF assms(1,2,3)] show ?thesis
    by (rule sublist_order.order_trans)
qed

text \<open>
  Claim C1, as amended.  The generator never looks a reference up.  For every schema on
  which no action of the template fails, whether or not its reference strings name a
  Definition of the document, the execution ends without an error and the output is
  complete: the fixed text with all definitions and all methods, up to the closing lines
  of the factory.  Every reference is written as the type name made from its string by
  \<^verbatim>\<open>convertRefToClassName\<close>: the field of a property with no known type tag, the
  items of an array whose items have no primitive tag, the body argument whose schema is
  not \<open>string\<close>, and the result type of a method whose 200-response gives a name.
\<close>

theorem unresolved_reference_is_not_checked:
  assumes "schema_renders s"
  shows "snd (codeTemplate_Execute s) = None
    \<and> main_output s = codeTemplate_preamble @ fst (range_map render_definition (Definitions s))
        @ codeTemplate_api_head @ fst (range_map render_path (Paths s)) @ codeTemplate_api_tail
    \<and> suffix (joinlines [[], ''  };'', [], ''  return napi;'', ''};'', []]) (main_output s)
    \<and> (\<forall>classname d fieldname p.
          (classname, d) \<in> set (Definitions s) \<longrightarrow> (fieldname, p) \<in> set (Properties d) \<longrightarrow>
          Type p \<notin> {''integer'', ''number'', ''boolean'', ''string'', ''array'', ''object''} \<longrightarrow>
          sublist (newline @ ''  '' @ fieldname @ ''?: '' @ convertRefToClassName (Ref p) @ '';'')
            (main_output s))
    \<and> (\<forall>classname d fieldname p.
          (classname, d) \<in> set (Definitions s) \<longrightarrow> (fieldname, p) \<in> set (Properties d) \<longrightarrow>
          Type p = ''array'' \<longrightarrow> it_Type (Items p) \<notin> {''string'', ''integer'', ''boolean''} \<longrightarrow>
          sublist (newline @ ''  '' @ fieldname @ ''?: Array<''
                   @ convertRefToClassName (it_Ref (Items p)) @ ''>;'')
            (main_output s))
    \<and> (\<forall>url path method operation p.
          (url, path) \<in> set (Paths s) \<longrightarrow> (method, operation) \<in> set path \<longrightarrow>
          p \<in> set (Parameters operation) \<longrightarrow>
          p_In p = ''body'' \<longrightarrow> ps_Type (p_Schema p) \<noteq> ''string'' \<longrightarrow>
          sublist (snakeCaseToCamelCase (p_Name p) @ optional_mark p @ '': ''
                   @ convertRefToClassName (ps_Ref (p_Schema p)) @ '', '')
            (main_output s))
    \<and> (\<forall>url path method operation.
          (url, path) \<in> set (Paths s) \<longrightarrow> (method, operation) \<in> set path \<longrightarrow>
          convertRefToClassName (rs_Ref (Responses_Ok_Schema operation)) \<noteq> [] \<longrightarrow>
          sublist (''options: any = {}): Promise<''
                   @ convertRefToClassName (rs_Ref (Responses_Ok_Schema operation)) @ ''> {'')
            (main_output s))"
proof (intro conjI allI impI)
  show "snd (codeTemplate_Execute s) = None"
    using assms by (simp add: snd_Execute)
  show out: "main_output s = codeTemplate_preamble @ fst (range_map render_definition (Definitions s))
      @ codeTemplate_api_head @ fst (range_map render_path (Paths s)) @ codeTemplate_api_tail"
    by (simp add: main_output_def Execute_text [OF assms])
  have "codeTemplate_api_tail = joinlines [[], ''  };'', [], ''  return napi;'', ''};'', []]"
    by (simp add: codeTemplate_api_tail_def)
  with out show "suffix (joinlines [[], ''  };'', [], ''  return napi;'', ''};'', []]) (main_output s)"
    by (simp only: suffix_def) (metis append.assoc)
qed (rule reference_field_output reference_items_output reference_body_output
      reference_response_output, (rule assms | assumption)+)+

lemma doc_unresolved_renders: "schema_renders doc_unresolved"
  by (simp add: schema_renders_def doc_unresolved_def definition_renders_def property_renders_def
      operation_renders_def argument_renders_def eval_docs)

lemma doc_unresolved_refs:
  "\<not> resolves doc_unresolved ''#/definitions/missing''"
  "\<not> resolves doc_unresolved ''#/definitions/absent''"
  "\<not> resolves doc_unresolved ''#/definitions/gone''"
  by (simp_all add: resolves_def doc_unresolved_def strings_TrimPrefix_def)

text \<open>
  The amended claim C1 at the sample document, whose three references name no
  Definition: the types \<open>Missing\<close>, \<open>Absent\<close> and \<open>Gone\<close> stand in its output.
\<close>

theorem unresolved_reference_is_not_checked_witness:
  "schema_renders doc_unresolved
   \<and> \<not> resolves doc_unresolved ''#/definitions/missing''
   \<and> \<not> resolves doc_unresolved ''#/definitions/absent''
   \<and> \<not> resolves doc_unresolved ''#/definitions/gone''
   \<and> snd (codeTemplate_Execute doc_unresolved) = None
   \<and> suffix (joinlines [[], ''  };'', [], ''  return napi;'', ''};'', []]) (main_output doc_unresolved)
   \<and> sublist (joinlines [[], ''  owner?: Missing;'']) (main_output doc_unresolved)
   \<and> sublist ''body: Absent, '' (main_output doc_unresolved)
   \<and> sublist ''options: any = {}): Promise<Gone> {'' (main_output doc_unresolved)"
proof -
  note t = unresolved_reference_is_not_checked [OF doc_unresolved_renders]
  have a: "(''account'', doc_account) \<in> set (Definitions doc_unresolved)"
    and b: "(''/v2/account/{user_id}'', [(''put'', doc_update)]) \<in> set (Paths doc_unresolved)"
    by (simp_all add: doc_unresolved_def)
  have c: "(''owner'', no_property\<lparr>Ref := ''#/definitions/missing''\<rparr>) \<in> set (Properties doc_account)"
    by (simp add: doc_account_def)
  have d: "(''put'', doc_update) \<in> set [(''put'', doc_update)]"
    and e: "doc_body \<in> set (Parameters doc_update)"
    by (simp_all add: doc_update_def)
  have names: "convertRefToClassName ''#/definitions/missing'' = ''Missing''"
    "convertRefToClassName ''#/definitions/absent'' = ''Absent''"
    "convertRefToClassName ''#/definitions/gone'' = ''Gone''"
    "snakeCaseToCamelCase ''body'' = ''body''"
    by (simp_all add: eval_naming)
  have tag: "Type (no_property\<lparr>Ref := ''#/definitions/missing''\<rparr>)
      \<notin> {''integer'', ''number'', ''boolean'', ''string'', ''array'', ''object''}"
    by (simp add: no_property_def)
  have body: "p_In doc_body = ''body''" "ps_Type (p_Schema doc_body) \<noteq> ''string''"
    by (simp_all add: doc_body_def no_parameter_def)
  have response: "convertRefToClassName (rs_Ref (Responses_Ok_Schema doc_update)) \<noteq> []"
    by (simp add: doc_update_def names)
  note field = t [THEN conjunct2, THEN conjunct2, THEN conjunct2, THEN conjunct1, rule_format,
      OF a c tag]
  note argument = t [THEN conjunct2, THEN conjunct2, THEN conjunct2, THEN conjunct2, THEN conjunct2,
      THEN conjunct1, rule_format, OF b d e body]
  note result = t [THEN conjunct2, THEN conjunct2, THEN conjunct2, THEN conjunct2, THEN conjunct2,
      THEN conjunct2, rule_format, OF b d response]
  from field have f: "sublist (joinlines [[], ''  owner?: Missing;'']) (main_output doc_unresolved)"
    by (simp add: names no_property_def)
  from argument have g: "sublist ''body: Absent, '' (main_output doc_unresolved)"
    by (simp add: names doc_body_def no_parameter_def optional_mark_def)
  from result have h: "sublist ''options: any = {}): Promise<Gone> {'' (main_output doc_unresolved)"
    by (simp add: names doc_update_def)
  show ?thesis
    by (intro conjI doc_unresolved_renders doc_unresolved_refs t [THEN conjunct1]
        t [THEN conjunct2, THEN conjunct2, THEN conjunct1] f g h)
qed

lemma doc_account_text:
  "range_map render_definition [(''account'', doc_account)] =
     emit (joinlines
       [[],
        ''/** An account. */'',
        ''export interface Account {'',
        ''  // '',
        ''  owner?: Missing;'',
        ''  // The id.'',
        ''  user_id?: string;'',
        ''}''])"
  by (simp add: eval_render eval_naming eval_docs emit_def)

lemma doc_update_text:
  \<open>render_operation ''/v2/account/{user_id}'' ''put'' doc_update =
     emit (joinlines
       [[],
        ''    /** Update the account. */'',
        ''    updateAccount(userId: string, dryRun?: boolean, body: Absent, options: any = {}): Promise<Gone> {'',
        ''      if (userId === null || userId === undefined) {'',
        ''        throw new Error("'' @ squote @ ''userId'' @ squote @ '' is a required parameter but is null or undefined.");'',
        ''      }'',
        ''      if (body === null || body === undefined) {'',
        ''        throw new Error("'' @ squote @ ''body'' @ squote @ '' is a required parameter but is null or undefined.");'',
        ''      }'',
        ''      const urlPath = "/v2/account/{user_id}"'',
        ''         .replace("{user_id}", encodeURIComponent(String(userId)));'',
        [],
        ''      const queryParams = {'',
        ''        dry_run: dryRun,'',
        ''      } as any;'',
        [],
        ''      let _body = null;'',
        ''      _body = JSON.stringify(body || {});'',
        [],
        ''      return napi.doFetch(urlPath, "PUT", queryParams, _body, options)'',
        ''    },''])\<close>
  by (simp add: eval_render eval_naming eval_docs emit_def required_check_def dispatch_call_def)

lemma doc_unresolved_definitions:
  "range_map render_definition (Definitions doc_unresolved) =
     range_map render_definition [(''account'', doc_account)]"
  by (simp add: doc_unresolved_def)

lemma doc_unresolved_paths:
  "range_map render_path (Paths doc_unresolved) =
     render_operation ''/v2/account/{user_id}'' ''put'' doc_update"
  by (simp add: doc_unresolved_def range_map_def render_path_def seq_single doc_update_text snd_emit)

text \<open>
  Claim C1 as stated fails at the sample document: the field \<open>owner\<close>, the body
  parameter and the 200-response refer to Definitions the document does not have, and the
  execution ends without an error, with the types \<open>Missing\<close>, \<open>Absent\<close> and \<open>Gone\<close> in
  the complete output.
\<close>

theorem unresolved_reference_counterexample:
  \<open>\<not> resolves doc_unresolved ''#/definitions/missing''
   \<and> \<not> resolves doc_unresolved ''#/definitions/absent''
   \<and> \<not> resolves doc_unresolved ''#/definitions/gone''
   \<and> codeTemplate_Execute doc_unresolved =
     (codeTemplate_preamble
      @ joinlines
          [[],
           ''/** An account. */'',
           ''export interface Account {'',
           ''  // '',
           ''  owner?: Missing;'',
           ''  // The id.'',
           ''  user_id?: string;'',
           ''}'']
      @ codeTemplate_api_head
      @ joinlines
          [[],
           ''    /** Update the account. */'',
           ''    updateAccount(userId: string, dryRun?: boolean, body: Absent, options: any = {}): Promise<Gone> {'',
           ''      if (userId === null || userId === undefined) {'',
           ''        throw new Error("'' @ squote @ ''userId'' @ squote @ '' is a required parameter but is null or undefined.");'',
           ''      }'',
           ''      if (body === null || body === undefined) {'',
           ''        throw new Error("'' @ squote @ ''body'' @ squote @ '' is a required parameter but is null or undefined.");'',
           ''      }'',
           ''      const urlPath = "/v2/account/{user_id}"'',
           ''         .replace("{user_id}", encodeURIComponent(String(userId)));'',
           [],
           ''      const queryParams = {'',
           ''        dry_run: dryRun,'',
           ''      } as any;'',
           [],
           ''      let _body = null;'',
           ''      _body = JSON.stringify(body || {});'',
           [],
           ''      return napi.doFetch(urlPath, "PUT", queryParams, _body, options)'',
           ''    },'']
      @ codeTemplate_api_tail,
      None)\<close>
  unfolding Execute_text [OF doc_unresolved_renders] doc_unresolved_definitions doc_unresolved_paths
    doc_account_text doc_update_text fst_emit
  by (simp add: doc_unresolved_refs)

text \<open>
  The output of every schema begins with the same text: the banner, the \<open>BASE_PATH\<close>
  constant set to \<open>http://127.0.0.1:80\<close> and the \<open>ConfigurationParameters\<close>
  interface.  When the definitions render, they are followed by the same \<open>NakamaApi\<close>
  factory with the same dispatcher, and when the whole schema renders the output is the
  fixed text with the definitions and the methods in between; these two are all that
  depends on the schema.  The document with no definitions and no paths gives the fixed
  text alone.
\<close>

lemma fixed_text_of_output:
  \<open>prefix codeTemplate_preamble (main_output s)
   \<and> prefix (joinlines
        [''// tslint:disable'',
         ''/* Code generated by openapi-gen/main.go. DO NOT EDIT. */'',
         [],
         ''const BASE_PATH = "http://127.0.0.1:80";'']) (main_output s)
   \<and> (list_all (\<lambda>(classname, d). definition_renders d) (Definitions s) \<longrightarrow>
        prefix (codeTemplate_preamble @ fst (range_map render_definition (Definitions s))
                @ codeTemplate_api_head) (main_output s))
   \<and> (schema_renders s \<longrightarrow>
        main_output s = codeTemplate_preamble @ fst (range_map render_definition (Definitions s))
          @ codeTemplate_api_head @ fst (range_map render_path (Paths s)) @ codeTemplate_api_tail)
   \<and> main_output doc_empty = codeTemplate_preamble @ codeTemplate_api_head @ codeTemplate_api_tail\<close>
proof (intro conjI impI)
  show first: "prefix codeTemplate_preamble (main_output s)"
    by (simp add: main_output_def codeTemplate_Execute_def seq_emit)
  have \<open>prefix (joinlines
        [''// tslint:disable'',
         ''/* Code generated by openapi-gen/main.go. DO NOT EDIT. */'',
         [],
         ''const BASE_PATH = "http://127.0.0.1:80";'']) codeTemplate_preamble\<close>
    by (simp add: codeTemplate_preamble_def)
  from this first show \<open>prefix (joinlines
        [''// tslint:disable'',
         ''/* Code generated by openapi-gen/main.go. DO NOT EDIT. */'',
         [],
         ''const BASE_PATH = "http://127.0.0.1:80";'']) (main_output s)\<close>
    by (rule prefix_order.trans)
next
  assume "list_all (\<lambda>(classname, d). definition_renders d) (Definitions s)"
  then have "snd (range_map render_definition (Definitions s)) = None"
    by (simp add: snd_range_map snd_render_definition)
  then show "prefix (codeTemplate_preamble @ fst (range_map render_definition (Definitions s))
      @ codeTemplate_api_head) (main_output s)"
    by (simp add: main_output_def codeTemplate_Execute_def seq_emit seq_Cons_None)
next
  assume "schema_renders s"
  then show "main_output s = codeTemplate_preamble @ fst (range_map render_definition (Definitions s))
      @ codeTemplate_api_head @ fst (range_map render_path (Paths s)) @ codeTemplate_api_tail"
    by (simp add: main_output_def Execute_text)
next
  show "main_output doc_empty = codeTemplate_preamble @ codeTemplate_api_head @ codeTemplate_api_tail"
    by (simp add: main_output_def codeTemplate_Execute_def doc_empty_def range_map_def seq_emit)
qed

text \<open>The sample document.\<close>

lemma fixed_text_of_output_sample:
  "schema_renders doc_unresolved
   \<and> list_all (\<lambda>(classname, d). definition_renders d) (Definitions doc_unresolved)
   \<and> prefix codeTemplate_preamble (main_output doc_unresolved)
   \<and> prefix (codeTemplate_preamble @ fst (range_map render_definition (Definitions doc_unresolved))
              @ codeTemplate_api_head) (main_output doc_unresolved)
   \<and> main_output doc_unresolved =
       codeTemplate_preamble @ fst (range_map render_definition (Definitions doc_unresolved))
       @ codeTemplate_api_head @ fst (range_map render_path (Paths doc_unresolved))
       @ codeTemplate_api_tail"
proof -
  have a: "schema_renders doc_unresolved"
    by (rule doc_unresolved_renders)
  then have b: "list_all (\<lambda>(classname, d). definition_renders d) (Definitions doc_unresolved)"
    by (simp add: schema_renders_def)
  from fixed_text_of_output [of doc_unresolved] a b show ?thesis
    by simp
qed

text \<open>
  Claim C10 (the code differs from it).  The claim gives the output of every schema the
  \<open>NakamaApi\<close> factory with its dispatcher.  The sample document has one definition
  with a property of type \<open>object\<close> and no additionalProperties: line 70 pipes a struct
  into \<^verbatim>\<open>cleanRef\<close>, the execution stops inside the field, and the output is the
  banner, \<open>BASE_PATH\<close>, the \<open>ConfigurationParameters\<close> interface and the opening of the
  definition, with no factory and no dispatcher behind them.
\<close>

theorem factory_missing:
  \<open>(''rpc'', doc_rpc) \<in> set (Definitions doc_object_property)
   \<and> codeTemplate_Execute doc_object_property =
     (joinlines
        [''// tslint:disable'',
         ''/* Code generated by openapi-gen/main.go. DO NOT EDIT. */'',
         [],
         ''const BASE_PATH = "http://127.0.0.1:80";'',
         [],
         ''export interface ConfigurationParameters {'',
         ''  basePath?: string;'',
         ''  username?: string;'',
         ''  password?: string;'',
         ''  bearerToken?: string;'',
         ''  timeoutMs?: number;'',
         ''}'',
         ''/** An RPC. */'',
         ''export interface Rpc {'',
         ''  // '',
         ''  payload?: Map<''],
      Some WrongTypeForValue)
   \<and> \<not> sublist ''NakamaApi'' (main_output doc_object_property)
   \<and> \<not> sublist ''doFetch'' (main_output doc_object_property)\<close>
proof -
  have out: \<open>codeTemplate_Execute doc_object_property =
     (joinlines
        [''// tslint:disable'',
         ''/* Code generated by openapi-gen/main.go. DO NOT EDIT. */'',
         [],
         ''const BASE_PATH = "http://127.0.0.1:80";'',
         [],
         ''export interface ConfigurationParameters {'',
         ''  basePath?: string;'',
         ''  username?: string;'',
         ''  password?: string;'',
         ''  bearerToken?: string;'',
         ''  timeoutMs?: number;'',
         ''}'',
         ''/** An RPC. */'',
         ''export interface Rpc {'',
         ''  // '',
         ''  payload?: Map<''],
      Some WrongTypeForValue)\<close>
    by (simp add: object_property_output codeTemplate_preamble_def)
  have a: "(''rpc'', doc_rpc) \<in> set (Definitions doc_object_property)"
    by (simp add: doc_object_property_def)
  have b: "\<not> sublist ''NakamaApi'' (main_output doc_object_property)"
    and c: "\<not> sublist ''doFetch'' (main_output doc_object_property)"
    by (simp_all add: main_output_def out sublist_Cons_right newline_def)
  show ?thesis
    by (intro conjI a out b c)
qed

subsection \<open>The order of the maps\<close>

text \<open>
  The keys of a map are visited in sorted order, so two enumerations of one map are
  visited alike.
\<close>

lemma distinct_keys_sort_key: "distinct (map fst (sort_key fst m)) = distinct (map fst m)"
  by (induction m) (simp_all add: distinct_insort_key)

lemma same_map_keys:
  assumes "same_map R m1 m2"
  shows "fst ` set m1 = fst ` set m2"
proof
  show "fst ` set m1 \<subseteq> fst ` set m2"
  proof
    fix k assume "k \<in> fst ` set m1"
    then obtain v where "(k, v) \<in> set m1" by auto
    with assms have "map_of m2 k \<noteq> None"
      by (auto simp: same_map_def list_all_iff split: option.splits)
    then show "k \<in> fst ` set m2"
      by (simp add: map_of_eq_None_iff)
  qed
next
  show "fst ` set m2 \<subseteq> fst ` set m1"
  proof
    fix k assume "k \<in> fst ` set m2"
    then obtain v where "(k, v) \<in> set m2" by auto
    with assms have "map_of m1 k \<noteq> None"
      by (auto simp: same_map_def list_all_iff)
    then show "k \<in> fst ` set m1"
      by (simp add: map_of_eq_None_iff)
  qed
qed

lemma same_map_values:
  assumes "same_map R m1 m2" and "(k, v) \<in> set m1" and "(k, v') \<in> set m2"
  shows "R v v'"
proof -
  from assms(1,3) have "map_of m2 k = Some v'"
    by (simp add: same_map_def)
  moreover from assms(1,2) have "case map_of m2 k of None \<Rightarrow> False | Some w \<Rightarrow> R v w"
    by (auto simp: same_map_def list_all_iff)
  ultimately show ?thesis by simp
qed

lemma same_map_sorted_keys:
  assumes "same_map R m1 m2"
  shows "map fst (sort_key fst m1) = map fst (sort_key fst m2)"
proof (rule sorted_distinct_set_unique)
  show "sorted (map fst (sort_key fst m1))" and "sorted (map fst (sort_key fst m2))"
    by (rule sorted_sort_key)+
  from assms show "distinct (map fst (sort_key fst m1))" and "distinct (map fst (sort_key fst m2))"
    by (simp_all add: distinct_keys_sort_key same_map_def)
  from same_map_keys [OF assms] show "set (map fst (sort_key fst m1)) = set (map fst (sort_key fst m2))"
    by simp
qed

lemma same_map_sorted:
  assumes "same_map R m1 m2"
  shows "list_all2 (\<lambda>(k, v) (k', v'). k = k' \<and> R v v') (sort_key fst m1) (sort_key fst m2)"
proof (rule list_all2_all_nthI)
  from same_map_sorted_keys [OF assms]
  have keys: "map fst (sort_key fst m1) = map fst (sort_key fst m2)" .
  then show len: "length (sort_key fst m1) = length (sort_key fst m2)"
    by (rule map_eq_imp_length_eq)
  fix i assume i: "i < length (sort_key fst m1)"
  obtain k v where a: "sort_key fst m1 ! i = (k, v)" by (cases "sort_key fst m1 ! i")
  obtain k' v' where b: "sort_key fst m2 ! i = (k', v')" by (cases "sort_key fst m2 ! i")
  from i len have "map fst (sort_key fst m1) ! i = k" and "map fst (sort_key fst m2) ! i = k'"
    by (simp_all add: a b)
  with keys have same: "k = k'" by simp
  from i a have "(k, v) \<in> set (sort_key fst m1)"
    by (metis nth_mem)
  then have in1: "(k, v) \<in> set m1" by simp
  from i len b have "(k', v') \<in> set (sort_key fst m2)"
    by (metis nth_mem)
  then have in2: "(k, v') \<in> set m2" by (simp add: same)
  from same_map_values [OF assms in1 in2] same a b
  show "(case sort_key fst m1 ! i of (k, v) \<Rightarrow> \<lambda>(k', v'). k = k' \<and> R v v') (sort_key fst m2 ! i)"
    by simp
qed

lemma map_body_related:
  assumes "list_all2 (\<lambda>(k, v) (k', v'). k = k' \<and> R v v') a b"
    and "\<And>k v v'. R v v' \<Longrightarrow> f k v = g k v'"
  shows "map (\<lambda>(k, v). f k v) a = map (\<lambda>(k, v). g k v) b"
  using assms(1) by (induction rule: list_all2_induct) (auto simp: assms(2))

lemma range_map_same:
  assumes "same_map R m1 m2" and "\<And>k v v'. R v v' \<Longrightarrow> f k v = g k v'"
  shows "range_map f m1 = range_map g m2"
  unfolding range_map_def
  using map_body_related [OF same_map_sorted [OF assms(1)] assms(2)] by simp

lemma render_definition_same:
  assumes "same_definition d1 d2"
  shows "render_definition classname d1 = render_definition classname d2"
proof -
  from assms have "range_map render_property (Properties d1) = range_map render_property (Properties d2)"
    by (intro range_map_same [where R = "(=)"]) (simp_all add: same_definition_def)
  with assms show ?thesis
    by (simp add: render_definition_def same_definition_def)
qed

lemma render_path_same:
  assumes "same_map (=) path1 path2"
  shows "render_path url path1 = render_path url path2"
  unfolding render_path_def using assms by (rule range_map_same) simp

text \<open>
  Claim C5.  The output depends on the document alone, not on the order in which a run
  holds the entries of its maps: two schemas that hold the same definitions, properties,
  paths and methods, in whatever order, give the same execution, text and error alike.
\<close>

theorem output_independent_of_map_order:
  assumes "same_schema s1 s2"
  shows "codeTemplate_Execute s1 = codeTemplate_Execute s2 \<and> main_output s1 = main_output s2"
proof -
  from assms have "range_map render_definition (Definitions s1) = range_map render_definition (Definitions s2)"
    by (intro range_map_same [where R = same_definition] render_definition_same)
       (simp_all add: same_schema_def)
  moreover from assms have "range_map render_path (Paths s1) = range_map render_path (Paths s2)"
    by (intro range_map_same [where R = "same_map (=)"] render_path_same)
       (simp_all add: same_schema_def)
  ultimately show ?thesis
    by (simp add: codeTemplate_Execute_def main_output_def)
qed

text \<open>Claim C5 at one document with its maps in two different orders.\<close>

theorem output_independent_of_map_order_witness:
  "same_schema doc_one_order doc_other_order
   \<and> Definitions doc_one_order \<noteq> Definitions doc_other_order
   \<and> Paths doc_one_order \<noteq> Paths doc_other_order
   \<and> codeTemplate_Execute doc_one_order = codeTemplate_Execute doc_other_order
   \<and> main_output doc_one_order = main_output doc_other_order"
proof -
  have a: "same_schema doc_one_order doc_other_order"
    by (simp add: same_schema_def same_map_def same_definition_def doc_one_order_def
        doc_other_order_def eval_docs)
  have b: "Definitions doc_one_order \<noteq> Definitions doc_other_order"
    and c: "Paths doc_one_order \<noteq> Paths doc_other_order"
    by (simp_all add: doc_one_order_def doc_other_order_def)
  from output_independent_of_map_order [OF a] a b c show ?thesis
    by simp
qed

end
